theory Spec2Isabelle
  imports Main "HOL-Library.Sublist" "HOL-Library.AList"
begin

section \<open>The GitLab push webhook of \<^verbatim>\<open>server/webhook.go\<close>\<close>

text \<open>
  The handler registered by \<^verbatim>\<open>registerWebhookRoutes\<close> validates a push event against the
  stored repository configuration and then walks every added file of every commit. Each
  file is classified, resolved to databases, and turned into one issue. The handler's
  persistent effects (issues, activities, log entries) are collected in an explicit state
  record that every step takes and returns.

  Go's \<^verbatim>\<open>int\<close> and \<^verbatim>\<open>int64\<close> values are identifiers and timestamps that the handler
  only copies and compares; they are modelled as \<open>int\<close>. Go strings are byte strings and are
  modelled as \<open>string\<close>.
\<close>

subsection \<open>Errors\<close>

text \<open>
  A Go \<^verbatim>\<open>error\<close> carries a message (\<^verbatim>\<open>err.Error()\<close>) and, through
  \<^verbatim>\<open>common.ErrorCode\<close>, a code of which the handler only inspects \<^verbatim>\<open>common.NotFound\<close>.
\<close>

datatype ErrorCode = NotFound | Internal

datatype error = Error (ErrorCode: ErrorCode) (ErrorMessage: string)

text \<open>\<^verbatim>\<open>fmt.Errorf\<close> builds an error without a \<^verbatim>\<open>common\<close> code from the formatted message.\<close>

definition Errorf :: "string \<Rightarrow> error" where
  "Errorf msg = Error Internal msg"

subsection \<open>The push event (package \<^verbatim>\<open>external/gitlab\<close>)\<close>

record CommitAuthor =
  CommitAuthor_Name :: string

record Commit =
  Commit_ID :: string
  Commit_Title :: string
  Commit_Message :: string
  Commit_Timestamp :: string
  Commit_URL :: string
  Commit_Author :: CommitAuthor
  Commit_AddedList :: "string list"

record WebhookProject =
  WebhookProject_ID :: int
  WebhookProject_WebURL :: string
  WebhookProject_FullPath :: string

record WebhookPushEvent =
  PushEvent_ObjectKind :: string
  PushEvent_Ref :: string
  PushEvent_AuthorName :: string
  PushEvent_Project :: WebhookProject
  PushEvent_CommitList :: "Commit list"

definition WebhookPush :: string where
  "WebhookPush = ''push''"

subsection \<open>Repository, database and policy records (package \<^verbatim>\<open>api\<close>)\<close>

record VCS =
  VCS_Type :: string
  VCS_InstanceURL :: string

record Repository =
  Repository_Name :: string
  Repository_ProjectId :: int
  Repository_VCS :: VCS
  Repository_ExternalId :: string
  Repository_WebhookSecretToken :: string
  Repository_AccessToken :: string
  Repository_BaseDirectory :: string
  Repository_FilePathTemplate :: string
  Repository_SchemaPathTemplate :: string

record Environment =
  Environment_ID :: int
  Environment_Name :: string

record Instance =
  Instance_EnvironmentId :: int
  Instance_Environment :: Environment

record Database =
  Database_ID :: int
  Database_InstanceId :: int
  Database_Instance :: Instance

text \<open>
  \<^verbatim>\<open>api.PipelineApprovalValue\<close> is a Go string type. Its declaration is not part of the
  sources at hand; the handler only compares a value with the constant
  \<^verbatim>\<open>PipelineApprovalValueManualNever\<close> and reads the zero value \<^verbatim>\<open>""\<close> from a map for a
  missing key.
\<close>

type_synonym PipelineApprovalValue = string

definition PipelineApprovalValueManualNever :: PipelineApprovalValue where
  \<comment> \<open>Modelled from the spec: the constant's declaration in package api is missing; the
      spec calls the value "manual-never". Only its being a non-empty string matters.\<close>
  "PipelineApprovalValueManualNever = ''MANUAL_APPROVAL_NEVER''"

record PipelineApprovalPolicy =
  PipelineApprovalPolicy_Value :: PipelineApprovalValue

definition SYSTEM_BOT_ID :: int where
  \<comment> \<open>Modelled from the spec: the system-bot identity, whose declaration in package api
      is missing. Only its being one fixed principal id matters.\<close>
  "SYSTEM_BOT_ID = 1"

subsection \<open>Migration descriptor (package \<^verbatim>\<open>plugin/db\<close>)\<close>

record MigrationInfo =
  MigrationInfo_Database :: string
  MigrationInfo_Environment :: string
  MigrationInfo_Type :: string
  MigrationInfo_Description :: string

subsection \<open>Push-event provenance (package \<^verbatim>\<open>common\<close>)\<close>

record VCSFileCommit =
  VCSFileCommit_ID :: string
  VCSFileCommit_Title :: string
  VCSFileCommit_Message :: string
  VCSFileCommit_CreatedTs :: int
  VCSFileCommit_URL :: string
  VCSFileCommit_AuthorName :: string
  VCSFileCommit_Added :: string

record VCSPushEvent =
  VCSPushEvent_VCSType :: string
  VCSPushEvent_BaseDirectory :: string
  VCSPushEvent_Ref :: string
  VCSPushEvent_RepositoryID :: string
  VCSPushEvent_RepositoryURL :: string
  VCSPushEvent_RepositoryFullPath :: string
  VCSPushEvent_AuthorName :: string
  VCSPushEvent_FileCommit :: VCSFileCommit

subsection \<open>Issue, pipeline and activity creation requests\<close>

datatype TaskStatus = TaskPending | TaskPendingApproval | TaskRunning | TaskDone
  | TaskFailed | TaskCanceled

datatype TaskType = TaskGeneral | TaskDatabaseCreate | TaskDatabaseSchemaUpdate

datatype IssueType = IssueGeneral | IssueDatabaseCreate | IssueDatabaseGrant
  | IssueDatabaseSchemaUpdate | IssueDataSourceRequest

record TaskCreate =
  TaskCreate_InstanceId :: int
  TaskCreate_DatabaseId :: int
  TaskCreate_Name :: string
  TaskCreate_Status :: TaskStatus
  TaskCreate_Type :: TaskType
  TaskCreate_Statement :: string
  TaskCreate_VCSPushEvent :: VCSPushEvent
  TaskCreate_MigrationType :: string

record StageCreate =
  StageCreate_EnvironmentId :: int
  StageCreate_TaskList :: "TaskCreate list"
  StageCreate_Name :: string

record PipelineCreate =
  PipelineCreate_StageList :: "StageCreate list"
  PipelineCreate_Name :: string

record IssueCreate =
  IssueCreate_ProjectId :: int
  IssueCreate_Pipeline :: PipelineCreate
  IssueCreate_Name :: string
  IssueCreate_Type :: IssueType
  IssueCreate_Description :: string
  IssueCreate_AssigneeId :: int

record Issue =
  Issue_ID :: int
  Issue_Name :: string

datatype ActivityType = ActivityProjectRepositoryPush

datatype ActivityLevel = ACTIVITY_INFO | ACTIVITY_WARN | ACTIVITY_ERROR

record ActivityProjectRepositoryPushPayload =
  Payload_VCSPushEvent :: VCSPushEvent
  Payload_IssueId :: int
  Payload_IssueName :: string

record ActivityCreate =
  ActivityCreate_CreatorId :: int
  ActivityCreate_ContainerId :: int
  ActivityCreate_Type :: ActivityType
  ActivityCreate_Level :: ActivityLevel
  ActivityCreate_Comment :: string
  ActivityCreate_Payload :: string

subsection \<open>The server's collaborators\<close>

text \<open>
  Everything the handler calls outside this file: the services of the \<^verbatim>\<open>Server\<close> value,
  the GitLab client, the migration path parser and the library functions whose result the
  control flow depends on. Each is a function from its arguments to an error or a result;
  within one request a collaborator answers the same call the same way.

  \<^item> \<open>gitlab_GET\<close> returns the response, of which the handler reads the body with
    \<^verbatim>\<open>io.ReadAll\<close>: the response is the result of that read.
  \<^item> \<open>regexp_Compile\<close> returns the compiled expression as its \<^verbatim>\<open>MatchString\<close> predicate.
  \<^item> \<open>time_Parse\<close> returns the parsed RFC 3339 time as Unix seconds.
  \<^item> \<open>fmt_q\<close> is the \<^verbatim>\<open>%q\<close> verb of \<^verbatim>\<open>fmt.Sprintf\<close> (a quoted Go string literal).
\<close>

record Server =
  json_Unmarshal :: "string \<Rightarrow> error + WebhookPushEvent"
  FindRepository :: "string \<Rightarrow> error + Repository"
  ComposeRepositoryRelationship :: "Repository \<Rightarrow> error + Repository"
  time_Parse :: "string \<Rightarrow> error + int"
  regexp_Compile :: "string \<Rightarrow> error + (string \<Rightarrow> bool)"
  filepath_Join :: "string \<Rightarrow> string \<Rightarrow> string"
  ParseMigrationInfo :: "string \<Rightarrow> string \<Rightarrow> error + MigrationInfo"
  url_QueryEscape :: "string \<Rightarrow> string"
  gitlab_GET :: "string \<Rightarrow> string \<Rightarrow> string \<Rightarrow> error + (error + string)"
  ComposeDatabaseListByFind :: "int \<Rightarrow> string \<Rightarrow> error + Database list"
  strings_EqualFold :: "string \<Rightarrow> string \<Rightarrow> bool"
  GetPipelineApprovalPolicy :: "int \<Rightarrow> error + PipelineApprovalPolicy"
  CreateIssue :: "IssueCreate \<Rightarrow> int \<Rightarrow> error + Issue"
  json_Marshal :: "ActivityProjectRepositoryPushPayload \<Rightarrow> error + string"
  CreateActivity :: "ActivityCreate \<Rightarrow> error + unit"
  fmt_q :: "string \<Rightarrow> string"

subsection \<open>The request, the response and the handler's effects\<close>

record Request =
  Request_Body :: "error + string"
  Request_XGitlabToken :: string
  Request_ParamId :: string

text \<open>
  The handler ends with \<^verbatim>\<open>c.String(status, body)\<close>, with an \<^verbatim>\<open>echo.HTTPError\<close>, or with
  a run-time panic (a nil pointer dereference).
\<close>

datatype HTTPResult = StringResponse int string | HTTPError int string | Panic

abbreviation StatusOK :: int where "StatusOK \<equiv> 200"
abbreviation StatusBadRequest :: int where "StatusBadRequest \<equiv> 400"
abbreviation StatusNotFound :: int where "StatusNotFound \<equiv> 404"
abbreviation StatusInternalServerError :: int where "StatusInternalServerError \<equiv> 500"

datatype LogLevel = Debug | Warn

text \<open>
  The state threaded through the handler. \<open>createdMessageList\<close> is the handler's local
  variable; \<open>activities\<close> are the activities that \<^verbatim>\<open>CreateActivity\<close> persisted and
  \<open>issues\<close> the issues that \<^verbatim>\<open>CreateIssue\<close> returned; \<open>logs\<close> are the entries written
  to \<^verbatim>\<open>s.l\<close> (level and message, without the structured fields). Two fields are
  bookkeeping of the model: \<open>submitted\<close> lists every request passed to \<^verbatim>\<open>CreateIssue\<close>,
  and \<open>visited\<close> lists every (commit, added file) pair for which the loop body was entered.
\<close>

record State =
  createdMessageList :: "string list"
  issues :: "Issue list"
  submitted :: "IssueCreate list"
  activities :: "ActivityCreate list"
  logs :: "(LogLevel \<times> string) list"
  visited :: "(Commit \<times> string) list"

definition initState :: State where
  "initState = \<lparr>createdMessageList = [], issues = [], submitted = [], activities = [],
     logs = [], visited = []\<rparr>"

definition l_Debug :: "string \<Rightarrow> State \<Rightarrow> State" where
  "l_Debug msg st = st\<lparr>logs := logs st @ [(Debug, msg)]\<rparr>"

definition l_Warn :: "string \<Rightarrow> State \<Rightarrow> State" where
  "l_Warn msg st = st\<lparr>logs := logs st @ [(Warn, msg)]\<rparr>"

datatype Flow = Continue | Exit HTTPResult

subsection \<open>Library functions the handler's text depends on\<close>

text \<open>\<^verbatim>\<open>strconv.Itoa\<close>: the decimal representation of an integer.\<close>

fun itoa_nat :: "nat \<Rightarrow> string" where
  "itoa_nat n =
     (if n < 10 then [''0123456789'' ! n]
      else itoa_nat (n div 10) @ [''0123456789'' ! (n mod 10)])"

declare itoa_nat.simps [simp del]

definition Itoa :: "int \<Rightarrow> string" where
  "Itoa i = (if i < 0 then CHR ''-'' # itoa_nat (nat (- i)) else itoa_nat (nat i))"

text \<open>
  \<^verbatim>\<open>strings.ReplaceAll s old new\<close> for a non-empty \<open>old\<close>: the non-overlapping occurrences
  of \<open>old\<close>, found from the left, are replaced. (For an empty \<open>old\<close> Go inserts \<open>new\<close>
  around every character; the handler passes the literals \<^verbatim>\<open>{{ENV_NAME}}\<close> and
  \<^verbatim>\<open>{{DB_NAME}}\<close> only, and the model leaves \<open>s\<close> unchanged there.)
\<close>

function ReplaceAll :: "string \<Rightarrow> string \<Rightarrow> string \<Rightarrow> string" where
  "ReplaceAll [] old new = []"
| "ReplaceAll (c # cs) old new =
     (if old \<noteq> [] \<and> prefix old (c # cs)
      then new @ ReplaceAll (drop (length old) (c # cs)) old new
      else c # ReplaceAll cs old new)"
  by pat_completeness auto
termination
  by (relation "measure (\<lambda>(s, old, new). length s)") (auto simp: Suc_le_eq)

text \<open>\<^verbatim>\<open>strings.Join\<close>.\<close>

fun Join :: "string list \<Rightarrow> string \<Rightarrow> string" where
  "Join [] sep = []"
| "Join [x] sep = x"
| "Join (x # y # ys) sep = x @ sep @ Join (y # ys) sep"

subsection \<open>Skipping the generated schema file (lines 84 to 104)\<close>

definition schemafilePathRegex :: "string \<Rightarrow> string" where
  "schemafilePathRegex template =
     ReplaceAll
       (ReplaceAll template ''{{ENV_NAME}}'' ''(?P<ENV_NAME>[a-zA-Z0-9+-=/_#?!$. ]+)'')
       ''{{DB_NAME}}'' ''(?P<DB_NAME>[a-zA-Z0-9+-=/_#?!$. ]+)''"

text \<open>
  When the schema path template is set, the built expression is compiled. A failed
  compilation is logged and leaves \<^verbatim>\<open>myRegex\<close> nil, so the call
  \<^verbatim>\<open>myRegex.MatchString(added)\<close> that follows dereferences a nil pointer and panics.
\<close>

datatype SchemaFileCheck = SchemaFileMatch | SchemaFileNoMatch | SchemaFilePanic

definition schemaFileCheck :: "Server \<Rightarrow> Repository \<Rightarrow> string \<Rightarrow> State \<Rightarrow> SchemaFileCheck \<times> State" where
  "schemaFileCheck s repository added st =
     (if Repository_SchemaPathTemplate repository \<noteq> [] then
        (case regexp_Compile s (schemafilePathRegex (Repository_SchemaPathTemplate repository)) of
           Inl err \<Rightarrow> (SchemaFilePanic, l_Warn ''Invalid schema path template.'' st)
         | Inr myRegex \<Rightarrow>
             if myRegex added then (SchemaFileMatch, st) else (SchemaFileNoMatch, st))
      else (SchemaFileNoMatch, st))"

subsection \<open>The push-event provenance of one file (lines 79 to 123)\<close>

text \<open>
  A commit timestamp that does not parse is logged and leaves \<^verbatim>\<open>createdTime\<close> the zero
  \<^verbatim>\<open>time.Time\<close>, whose \<^verbatim>\<open>Unix()\<close> is the first second of year 1.
\<close>

definition zeroTimeUnix :: int where
  "zeroTimeUnix = - 62135596800"

definition mkVCSPushEvent ::
  "Repository \<Rightarrow> WebhookPushEvent \<Rightarrow> Commit \<Rightarrow> string \<Rightarrow> int \<Rightarrow> VCSPushEvent" where
  "mkVCSPushEvent repository pushEvent commit added createdTs =
     \<lparr>VCSPushEvent_VCSType = VCS_Type (Repository_VCS repository),
      VCSPushEvent_BaseDirectory = Repository_BaseDirectory repository,
      VCSPushEvent_Ref = PushEvent_Ref pushEvent,
      VCSPushEvent_RepositoryID = Itoa (WebhookProject_ID (PushEvent_Project pushEvent)),
      VCSPushEvent_RepositoryURL = WebhookProject_WebURL (PushEvent_Project pushEvent),
      VCSPushEvent_RepositoryFullPath = WebhookProject_FullPath (PushEvent_Project pushEvent),
      VCSPushEvent_AuthorName = PushEvent_AuthorName pushEvent,
      VCSPushEvent_FileCommit =
        \<lparr>VCSFileCommit_ID = Commit_ID commit,
         VCSFileCommit_Title = Commit_Title commit,
         VCSFileCommit_Message = Commit_Message commit,
         VCSFileCommit_CreatedTs = createdTs,
         VCSFileCommit_URL = Commit_URL commit,
         VCSFileCommit_AuthorName = CommitAuthor_Name (Commit_Author commit),
         VCSFileCommit_Added = added\<rparr>\<rparr>"

subsection \<open>\<^verbatim>\<open>createIgnoredFileActivity\<close> (lines 125 to 148)\<close>

definition ignoredFileActivity :: "Server \<Rightarrow> Repository \<Rightarrow> string \<Rightarrow> error \<Rightarrow> string \<Rightarrow> ActivityCreate" where
  "ignoredFileActivity s repository added err bytes =
     \<lparr>ActivityCreate_CreatorId = SYSTEM_BOT_ID,
      ActivityCreate_ContainerId = Repository_ProjectId repository,
      ActivityCreate_Type = ActivityProjectRepositoryPush,
      ActivityCreate_Level = ACTIVITY_WARN,
      ActivityCreate_Comment =
        ''Ignored committed file '' @ fmt_q s added @ '', '' @ ErrorMessage err @ ''.'',
      ActivityCreate_Payload = bytes\<rparr>"

definition ignoredFilePayload :: "VCSPushEvent \<Rightarrow> ActivityProjectRepositoryPushPayload" where
  "ignoredFilePayload vcsPushEvent =
     \<lparr>Payload_VCSPushEvent = vcsPushEvent, Payload_IssueId = 0, Payload_IssueName = []\<rparr>"

definition createIgnoredFileActivity ::
  "Server \<Rightarrow> Repository \<Rightarrow> string \<Rightarrow> VCSPushEvent \<Rightarrow> error \<Rightarrow> State \<Rightarrow> State" where
  "createIgnoredFileActivity s repository added vcsPushEvent err st =
     (let st1 = l_Warn ''Ignored committed file'' st in
      case json_Marshal s (ignoredFilePayload vcsPushEvent) of
        Inl marshalErr \<Rightarrow>
          l_Warn ''Failed to construct project activity payload to record ignored repository committed file'' st1
      | Inr bytes \<Rightarrow>
          (case CreateActivity s (ignoredFileActivity s repository added err bytes) of
             Inl err' \<Rightarrow>
               l_Warn ''Failed to create project activity to record ignored repository committed file'' st1
           | Inr u \<Rightarrow>
               st1\<lparr>activities := activities st1 @ [ignoredFileActivity s repository added err bytes]\<rparr>))"

subsection \<open>Filtering by environment name (lines 199 to 214)\<close>

definition environmentNameOf :: "Database \<Rightarrow> string" where
  "environmentNameOf database = Environment_Name (Instance_Environment (Database_Instance database))"

definition environmentIdOf :: "Database \<Rightarrow> int" where
  "environmentIdOf database = Instance_EnvironmentId (Database_Instance database)"

definition filterByEnvironment :: "Server \<Rightarrow> MigrationInfo \<Rightarrow> Database list \<Rightarrow> Database list" where
  "filterByEnvironment s mi databaseList =
     (if MigrationInfo_Environment mi \<noteq> []
      then filter (\<lambda>database. strings_EqualFold s (environmentNameOf database) (MigrationInfo_Environment mi))
             databaseList
      else databaseList)"

subsection \<open>Grouping by environment and loading the approval policies (lines 216 to 256)\<close>

text \<open>
  The Go map \<^verbatim>\<open>databaseListByEnv\<close> is an association list in insertion order (Go
  leaves the iteration order of a map unspecified; it only decides the order of the log
  entries of the ambiguity check). \<^verbatim>\<open>pipelineApprovalByEnv\<close> is only read and written by
  key and is a map.

  The \<^verbatim>\<open>continue\<close> of line 235 stands inside the loop over \<^verbatim>\<open>filterdDatabaseList\<close>: after
  a failed policy lookup the loop goes on with the next database of the same file.
\<close>

definition policyLookupFailed :: "int \<Rightarrow> error" where
  "policyLookupFailed environmentId =
     Errorf (''failed to find pipeline approval policy for environment '' @ Itoa environmentId)"

fun groupLoop ::
  "Server \<Rightarrow> (error \<Rightarrow> State \<Rightarrow> State) \<Rightarrow> Database list \<Rightarrow>
   (int \<times> Database list) list \<times> (int \<rightharpoonup> PipelineApprovalValue) \<times> State \<Rightarrow>
   (int \<times> Database list) list \<times> (int \<rightharpoonup> PipelineApprovalValue) \<times> State" where
  "groupLoop s ignored [] acc = acc"
| "groupLoop s ignored (database # rest) (databaseListByEnv, pipelineApprovalByEnv, st) =
     (let databaseListByEnv' =
            (case map_of databaseListByEnv (environmentIdOf database) of
               Some list \<Rightarrow> AList.update (environmentIdOf database) (list @ [database]) databaseListByEnv
             | None \<Rightarrow> AList.update (environmentIdOf database) ([] @ [database]) databaseListByEnv)
      in case pipelineApprovalByEnv (environmentIdOf database) of
           Some v \<Rightarrow> groupLoop s ignored rest (databaseListByEnv', pipelineApprovalByEnv, st)
         | None \<Rightarrow>
             (case GetPipelineApprovalPolicy s (environmentIdOf database) of
                Inl err \<Rightarrow>
                  groupLoop s ignored rest
                    (databaseListByEnv', pipelineApprovalByEnv,
                     ignored (policyLookupFailed (environmentIdOf database)) st)
              | Inr p \<Rightarrow>
                  groupLoop s ignored rest
                    (databaseListByEnv',
                     pipelineApprovalByEnv(environmentIdOf database \<mapsto> PipelineApprovalPolicy_Value p),
                     st)))"

definition ambiguousMessage :: "Server \<Rightarrow> MigrationInfo \<Rightarrow> int \<Rightarrow> string" where
  "ambiguousMessage s mi environmentId =
     ''Ignored committed file, multiple ambiguous databases named '' @ fmt_q s (MigrationInfo_Database mi)
       @ '' for environment '' @ Itoa environmentId @ ''.''"

fun ambiguityLoop ::
  "Server \<Rightarrow> MigrationInfo \<Rightarrow> (int \<times> Database list) list \<Rightarrow> bool \<times> State \<Rightarrow> bool \<times> State" where
  "ambiguityLoop s mi [] acc = acc"
| "ambiguityLoop s mi ((environmentId, databaseList) # rest) (multipleDatabaseForSameEnv, st) =
     (if length databaseList > 1
      then ambiguityLoop s mi rest (True, l_Warn (ambiguousMessage s mi environmentId) st)
      else ambiguityLoop s mi rest (multipleDatabaseForSameEnv, st))"

subsection \<open>Composing the issue (lines 258 to 293)\<close>

text \<open>
  The policy map was filled under the key \<^verbatim>\<open>database.Instance.EnvironmentId\<close> and is read
  under the key \<^verbatim>\<open>database.Instance.Environment.ID\<close>; a missing key reads as the zero
  value, the empty string.
\<close>

definition approvalOf :: "(int \<rightharpoonup> PipelineApprovalValue) \<Rightarrow> int \<Rightarrow> PipelineApprovalValue" where
  "approvalOf pipelineApprovalByEnv k = (case pipelineApprovalByEnv k of None \<Rightarrow> [] | Some v \<Rightarrow> v)"

definition composeStage ::
  "MigrationInfo \<Rightarrow> string \<Rightarrow> VCSPushEvent \<Rightarrow> (int \<rightharpoonup> PipelineApprovalValue) \<Rightarrow> Database \<Rightarrow> StageCreate" where
  "composeStage mi b vcsPushEvent pipelineApprovalByEnv database =
     (let taskStatus =
            (if approvalOf pipelineApprovalByEnv
                  (Environment_ID (Instance_Environment (Database_Instance database)))
                = PipelineApprovalValueManualNever
             then TaskPending else TaskPendingApproval);
          task =
            \<lparr>TaskCreate_InstanceId = Database_InstanceId database,
             TaskCreate_DatabaseId = Database_ID database,
             TaskCreate_Name = MigrationInfo_Description mi,
             TaskCreate_Status = taskStatus,
             TaskCreate_Type = TaskDatabaseSchemaUpdate,
             TaskCreate_Statement = b,
             TaskCreate_VCSPushEvent = vcsPushEvent,
             TaskCreate_MigrationType = MigrationInfo_Type mi\<rparr>
      in \<lparr>StageCreate_EnvironmentId = environmentIdOf database,
          StageCreate_TaskList = [task],
          StageCreate_Name = environmentNameOf database\<rparr>)"

definition composeIssue ::
  "Repository \<Rightarrow> Commit \<Rightarrow> MigrationInfo \<Rightarrow> string \<Rightarrow> VCSPushEvent \<Rightarrow>
   (int \<rightharpoonup> PipelineApprovalValue) \<Rightarrow> Database list \<Rightarrow> IssueCreate" where
  "composeIssue repository commit mi b vcsPushEvent pipelineApprovalByEnv filterdDatabaseList =
     \<lparr>IssueCreate_ProjectId = Repository_ProjectId repository,
      IssueCreate_Pipeline =
        \<lparr>PipelineCreate_StageList =
           map (composeStage mi b vcsPushEvent pipelineApprovalByEnv) filterdDatabaseList,
         PipelineCreate_Name = ''Pipeline - '' @ Commit_Title commit\<rparr>,
      IssueCreate_Name = Commit_Title commit,
      IssueCreate_Type = IssueDatabaseSchemaUpdate,
      IssueCreate_Description = Commit_Message commit,
      IssueCreate_AssigneeId = SYSTEM_BOT_ID\<rparr>"

subsection \<open>Creating the issue and recording it (lines 295 to 327)\<close>

definition createdMessage :: "Server \<Rightarrow> Issue \<Rightarrow> string \<Rightarrow> string" where
  "createdMessage s issue added =
     ''Created issue '' @ fmt_q s (Issue_Name issue) @ '' on adding '' @ added"

definition createdPayload :: "VCSPushEvent \<Rightarrow> Issue \<Rightarrow> ActivityProjectRepositoryPushPayload" where
  "createdPayload vcsPushEvent issue =
     \<lparr>Payload_VCSPushEvent = vcsPushEvent, Payload_IssueId = Issue_ID issue,
      Payload_IssueName = Issue_Name issue\<rparr>"

definition createdActivity :: "Server \<Rightarrow> Repository \<Rightarrow> Issue \<Rightarrow> string \<Rightarrow> ActivityCreate" where
  "createdActivity s repository issue bytes =
     \<lparr>ActivityCreate_CreatorId = SYSTEM_BOT_ID,
      ActivityCreate_ContainerId = Repository_ProjectId repository,
      ActivityCreate_Type = ActivityProjectRepositoryPush,
      ActivityCreate_Level = ACTIVITY_INFO,
      ActivityCreate_Comment = ''Created issue '' @ fmt_q s (Issue_Name issue) @ ''.'',
      ActivityCreate_Payload = bytes\<rparr>"

definition createIssueForFile ::
  "Server \<Rightarrow> Repository \<Rightarrow> string \<Rightarrow> VCSPushEvent \<Rightarrow> IssueCreate \<Rightarrow> State \<Rightarrow> Flow \<times> State" where
  "createIssueForFile s repository added vcsPushEvent issueCreate st =
     (let st1 = st\<lparr>submitted := submitted st @ [issueCreate]\<rparr> in
      case CreateIssue s issueCreate SYSTEM_BOT_ID of
        Inl err \<Rightarrow>
          (Continue, l_Warn ''Failed to create update schema task for added repository file'' st1)
      | Inr issue \<Rightarrow>
          (let st2 = st1\<lparr>issues := issues st1 @ [issue]\<rparr>;
               st3 = st2\<lparr>createdMessageList := createdMessageList st2 @ [createdMessage s issue added]\<rparr>
           in case json_Marshal s (createdPayload vcsPushEvent issue) of
                Inl err \<Rightarrow>
                  (Exit (HTTPError StatusInternalServerError ''Failed to construct activity payload''), st3)
              | Inr bytes \<Rightarrow>
                  (case CreateActivity s (createdActivity s repository issue bytes) of
                     Inl err \<Rightarrow>
                       (Exit (HTTPError StatusInternalServerError
                          (''Failed to create project activity after creating issue from repository push event: ''
                             @ Itoa (Issue_ID issue))), st3)
                   | Inr u \<Rightarrow>
                       (Continue,
                        st3\<lparr>activities := activities st3 @ [createdActivity s repository issue bytes]\<rparr>))))"

subsection \<open>Resolving the databases of a parsed file (lines 174 to 293)\<close>

definition findFailed :: "Server \<Rightarrow> MigrationInfo \<Rightarrow> error" where
  "findFailed s mi =
     Errorf (''failed to find database matching database '' @ fmt_q s (MigrationInfo_Database mi)
       @ '' referenced by the committed file'')"

definition notOwned :: "Server \<Rightarrow> Repository \<Rightarrow> MigrationInfo \<Rightarrow> error" where
  "notOwned s repository mi =
     Errorf (''project ID '' @ Itoa (Repository_ProjectId repository) @ '' does not own database ''
       @ fmt_q s (MigrationInfo_Database mi) @ '' referenced by the committed file'')"

definition notInEnvironment :: "Server \<Rightarrow> MigrationInfo \<Rightarrow> error" where
  "notInEnvironment s mi =
     Errorf (''project does not contain committed file database '' @ fmt_q s (MigrationInfo_Database mi)
       @ '' for environment '' @ fmt_q s (MigrationInfo_Environment mi))"

definition processMigration ::
  "Server \<Rightarrow> Repository \<Rightarrow> Commit \<Rightarrow> string \<Rightarrow> VCSPushEvent \<Rightarrow> MigrationInfo \<Rightarrow> string \<Rightarrow>
   State \<Rightarrow> Flow \<times> State" where
  "processMigration s repository commit added vcsPushEvent mi b st =
     (let ignored = createIgnoredFileActivity s repository added vcsPushEvent in
      case ComposeDatabaseListByFind s (Repository_ProjectId repository) (MigrationInfo_Database mi) of
        Inl err \<Rightarrow> (Continue, ignored (findFailed s mi) st)
      | Inr databaseList \<Rightarrow>
          if length databaseList = 0 then (Continue, ignored (notOwned s repository mi) st)
          else
            (let filterdDatabaseList = filterByEnvironment s mi databaseList in
             if MigrationInfo_Environment mi \<noteq> [] \<and> length filterdDatabaseList = 0
             then (Continue, ignored (notInEnvironment s mi) st)
             else
               (case groupLoop s ignored filterdDatabaseList ([], Map.empty, st) of
                  (databaseListByEnv, pipelineApprovalByEnv, st1) \<Rightarrow>
                    (case ambiguityLoop s mi databaseListByEnv (False, st1) of
                       (multipleDatabaseForSameEnv, st2) \<Rightarrow>
                         if multipleDatabaseForSameEnv then (Continue, st2)
                         else createIssueForFile s repository added vcsPushEvent
                                (composeIssue repository commit mi b vcsPushEvent
                                   pipelineApprovalByEnv filterdDatabaseList) st2))))"

subsection \<open>One added file (the body of the inner loop, lines 73 to 328)\<close>

definition rawFilePath :: "Server \<Rightarrow> Repository \<Rightarrow> Commit \<Rightarrow> string \<Rightarrow> string" where
  "rawFilePath s repository commit added =
     ''projects/'' @ Repository_ExternalId repository @ ''/repository/files/''
       @ url_QueryEscape s added @ ''/raw?ref='' @ Commit_ID commit"

definition processFile ::
  "Server \<Rightarrow> Repository \<Rightarrow> WebhookPushEvent \<Rightarrow> Commit \<Rightarrow> string \<Rightarrow> State \<Rightarrow> Flow \<times> State" where
  "processFile s repository pushEvent commit added st0 =
     (let st = st0\<lparr>visited := visited st0 @ [(commit, added)]\<rparr> in
      if \<not> prefix (Repository_BaseDirectory repository) added
      then (Continue, l_Debug ''Ignored committed file, not under base directory.'' st)
      else
        (case (case time_Parse s (Commit_Timestamp commit) of
                 Inl err \<Rightarrow>
                   (zeroTimeUnix,
                    l_Warn ''Ignored committed file, failed to parse commit timestamp.'' st)
               | Inr t \<Rightarrow> (t, st)) of
           (createdTs, st1) \<Rightarrow>
             (case schemaFileCheck s repository added st1 of
                (SchemaFilePanic, st2) \<Rightarrow> (Exit Panic, st2)
              | (SchemaFileMatch, st2) \<Rightarrow> (Continue, st2)
              | (SchemaFileNoMatch, st2) \<Rightarrow>
                  (let vcsPushEvent = mkVCSPushEvent repository pushEvent commit added createdTs;
                       ignored = createIgnoredFileActivity s repository added vcsPushEvent
                   in case ParseMigrationInfo s added
                             (filepath_Join s (Repository_BaseDirectory repository)
                                (Repository_FilePathTemplate repository)) of
                        Inl err \<Rightarrow> (Continue, ignored err st2)
                      | Inr mi \<Rightarrow>
                          (case gitlab_GET s (VCS_InstanceURL (Repository_VCS repository))
                                  (rawFilePath s repository commit added)
                                  (Repository_AccessToken repository) of
                             Inl err \<Rightarrow>
                               (Continue,
                                ignored (Errorf (''failed to read file: '' @ ErrorMessage err)) st2)
                           | Inr resp \<Rightarrow>
                               (case resp of
                                  Inl err \<Rightarrow>
                                    (Continue,
                                     ignored (Errorf (''failed to read file response: '' @ ErrorMessage err)) st2)
                                | Inr b \<Rightarrow>
                                    processMigration s repository commit added vcsPushEvent mi b st2))))))"

subsection \<open>The loops over commits and added files (lines 71 to 73) and the handler\<close>

fun addedLoop ::
  "Server \<Rightarrow> Repository \<Rightarrow> WebhookPushEvent \<Rightarrow> Commit \<Rightarrow> string list \<Rightarrow> State \<Rightarrow> Flow \<times> State" where
  "addedLoop s repository pushEvent commit [] st = (Continue, st)"
| "addedLoop s repository pushEvent commit (added # rest) st =
     (case processFile s repository pushEvent commit added st of
        (Continue, st') \<Rightarrow> addedLoop s repository pushEvent commit rest st'
      | (Exit r, st') \<Rightarrow> (Exit r, st'))"

fun commitLoop ::
  "Server \<Rightarrow> Repository \<Rightarrow> WebhookPushEvent \<Rightarrow> Commit list \<Rightarrow> State \<Rightarrow> Flow \<times> State" where
  "commitLoop s repository pushEvent [] st = (Continue, st)"
| "commitLoop s repository pushEvent (commit # rest) st =
     (case addedLoop s repository pushEvent commit (Commit_AddedList commit) st of
        (Continue, st') \<Rightarrow> commitLoop s repository pushEvent rest st'
      | (Exit r, st') \<Rightarrow> (Exit r, st'))"

text \<open>
  Request-level validation (lines 31 to 69). It does not touch the state: every early
  return happens before the first file is looked at.
\<close>

definition validate :: "Server \<Rightarrow> Request \<Rightarrow> HTTPResult + WebhookPushEvent \<times> Repository" where
  "validate s c =
     (case Request_Body c of
        Inl err \<Rightarrow> Inl (HTTPError StatusBadRequest ''Failed to read webhook request'')
      | Inr b \<Rightarrow>
          (case json_Unmarshal s b of
             Inl err \<Rightarrow> Inl (HTTPError StatusBadRequest ''Malformatted push event'')
           | Inr pushEvent \<Rightarrow>
               if PushEvent_ObjectKind pushEvent \<noteq> WebhookPush
               then Inl (HTTPError StatusBadRequest
                      (''Invalid webhook event type, got '' @ PushEvent_ObjectKind pushEvent @ '', want push''))
               else
                 (case FindRepository s (Request_ParamId c) of
                    Inl err \<Rightarrow>
                      if ErrorCode err = NotFound
                      then Inl (HTTPError StatusNotFound (''Endpoint not found: '' @ Request_ParamId c))
                      else Inl (HTTPError StatusInternalServerError
                             (''Failed to respond webhook event for endpoint: '' @ Request_ParamId c))
                  | Inr found \<Rightarrow>
                      (case ComposeRepositoryRelationship s found of
                         Inl err \<Rightarrow>
                           Inl (HTTPError StatusInternalServerError
                             (''Failed to fetch repository relationship: '' @ Repository_Name found))
                       | Inr repository \<Rightarrow>
                           if Request_XGitlabToken c \<noteq> Repository_WebhookSecretToken repository
                           then Inl (HTTPError StatusBadRequest ''Secret token mismatch'')
                           else if Itoa (WebhookProject_ID (PushEvent_Project pushEvent))
                                     \<noteq> Repository_ExternalId repository
                           then Inl (HTTPError StatusBadRequest
                                  (''Project mismatch, got '' @ Itoa (WebhookProject_ID (PushEvent_Project pushEvent))
                                     @ '', want '' @ Repository_ExternalId repository))
                           else Inr (pushEvent, repository)))))"

definition handler :: "Server \<Rightarrow> Request \<Rightarrow> HTTPResult \<times> State" where
  "handler s c =
     (case validate s c of
        Inl r \<Rightarrow> (r, initState)
      | Inr (pushEvent, repository) \<Rightarrow>
          (case commitLoop s repository pushEvent (PushEvent_CommitList pushEvent) initState of
             (Continue, st) \<Rightarrow> (StringResponse StatusOK (Join (createdMessageList st) [CHR 0x0A]), st)
           | (Exit r, st) \<Rightarrow> (r, st)))"

section \<open>Notions of the specification\<close>

text \<open>
  The specification speaks of a file that is a generated schema artifact, that parses, that
  resolves to databases, that is ambiguous, and of the issue created for it. These notions are
  defined here from the collaborators' answers alone, without the handler's state, so that
  the handler can be compared with them.
\<close>

subsection \<open>Classifying one added file\<close>

definition schemaTemplateCompiles :: "Server \<Rightarrow> Repository \<Rightarrow> bool" where
  "schemaTemplateCompiles s repository =
     (Repository_SchemaPathTemplate repository = [] \<or>
      \<not> isl (regexp_Compile s (schemafilePathRegex (Repository_SchemaPathTemplate repository))))"

definition matchesSchemaTemplate :: "Server \<Rightarrow> Repository \<Rightarrow> string \<Rightarrow> bool" where
  "matchesSchemaTemplate s repository added =
     (Repository_SchemaPathTemplate repository \<noteq> [] \<and>
      (case regexp_Compile s (schemafilePathRegex (Repository_SchemaPathTemplate repository)) of
         Inl err \<Rightarrow> False
       | Inr myRegex \<Rightarrow> myRegex added))"

definition parsedMigration :: "Server \<Rightarrow> Repository \<Rightarrow> string \<Rightarrow> error + MigrationInfo" where
  "parsedMigration s repository added =
     ParseMigrationInfo s added
       (filepath_Join s (Repository_BaseDirectory repository) (Repository_FilePathTemplate repository))"

definition fetchedContent :: "Server \<Rightarrow> Repository \<Rightarrow> Commit \<Rightarrow> string \<Rightarrow> error + string" where
  "fetchedContent s repository commit added =
     (case gitlab_GET s (VCS_InstanceURL (Repository_VCS repository))
             (rawFilePath s repository commit added) (Repository_AccessToken repository) of
        Inl err \<Rightarrow> Inl err
      | Inr resp \<Rightarrow> resp)"

subsection \<open>Resolving the databases of a migration\<close>

text \<open>
  The candidate set is the project's databases of the migration's name, filtered by the
  environment name when the migration has one. Its bucket of an environment id holds the
  candidates of that environment; the set is ambiguous when some bucket holds more than one
  database. A file resolves when it lies under the base directory, is no schema artifact,
  parses, can be fetched, and has a candidate set that is neither empty nor ambiguous.
\<close>

definition candidates :: "Server \<Rightarrow> Repository \<Rightarrow> MigrationInfo \<Rightarrow> error + Database list" where
  "candidates s repository mi =
     (case ComposeDatabaseListByFind s (Repository_ProjectId repository) (MigrationInfo_Database mi) of
        Inl err \<Rightarrow> Inl err
      | Inr databaseList \<Rightarrow> Inr (filterByEnvironment s mi databaseList))"

definition bucket :: "int \<Rightarrow> Database list \<Rightarrow> Database list" where
  "bucket environmentId databaseList =
     filter (\<lambda>database. environmentIdOf database = environmentId) databaseList"

definition ambiguous :: "Database list \<Rightarrow> bool" where
  "ambiguous databaseList =
     (\<exists>database \<in> set databaseList. 1 < length (bucket (environmentIdOf database) databaseList))"

definition resolveTargets ::
  "Server \<Rightarrow> Repository \<Rightarrow> Commit \<Rightarrow> string \<Rightarrow> (MigrationInfo \<times> string \<times> Database list) option" where
  "resolveTargets s repository commit added =
     (if \<not> prefix (Repository_BaseDirectory repository) added then None
      else if \<not> schemaTemplateCompiles s repository then None
      else if matchesSchemaTemplate s repository added then None
      else
        (case parsedMigration s repository added of
           Inl err \<Rightarrow> None
         | Inr mi \<Rightarrow>
             (case fetchedContent s repository commit added of
                Inl err \<Rightarrow> None
              | Inr b \<Rightarrow>
                  (case candidates s repository mi of
                     Inl err \<Rightarrow> None
                   | Inr targets \<Rightarrow>
                       if targets = [] \<or> ambiguous targets then None
                       else Some (mi, b, targets)))))"

subsection \<open>Approval policies\<close>

text \<open>
  \<open>lookedUpApproval\<close> is the value of the policy looked up for a database's environment,
  if the lookup succeeds; \<open>loadedPolicies\<close> is the map of the values looked up for a
  candidate set, and \<open>policiesLoaded\<close> says that each of its lookups succeeds.
  \<open>composedRecord\<close> is the invariant of a database record whose relationships have been
  composed: the environment attached to its instance is the one its instance names by id.
\<close>

definition lookedUpApproval :: "Server \<Rightarrow> Database \<Rightarrow> PipelineApprovalValue option" where
  "lookedUpApproval s database =
     (case GetPipelineApprovalPolicy s (environmentIdOf database) of
        Inl err \<Rightarrow> None
      | Inr p \<Rightarrow> Some (PipelineApprovalPolicy_Value p))"

definition loadedPolicies :: "Server \<Rightarrow> Database list \<Rightarrow> (int \<rightharpoonup> PipelineApprovalValue)" where
  "loadedPolicies s databaseList =
     (\<lambda>environmentId.
        if environmentId \<in> environmentIdOf ` set databaseList
        then (case GetPipelineApprovalPolicy s environmentId of
                Inl err \<Rightarrow> None
              | Inr p \<Rightarrow> Some (PipelineApprovalPolicy_Value p))
        else None)"

definition policiesLoaded :: "Server \<Rightarrow> Database list \<Rightarrow> bool" where
  "policiesLoaded s databaseList =
     (\<forall>database \<in> set databaseList. \<not> isl (GetPipelineApprovalPolicy s (environmentIdOf database)))"

definition composedRecord :: "Database \<Rightarrow> bool" where
  "composedRecord database =
     (Environment_ID (Instance_Environment (Database_Instance database))
        = Instance_EnvironmentId (Database_Instance database))"

subsection \<open>The issue of a file\<close>

text \<open>
  For a file that resolves, \<open>fileIssueCreate\<close> is the request the specification expects,
  \<open>createdIssue\<close> the issue that \<^verbatim>\<open>CreateIssue\<close> returns for it and \<open>createdLine\<close> its
  line of the response. \<open>recordingFails\<close> says that the INFO activity of a created issue
  cannot be marshalled or persisted. \<open>fileFlow\<close> is how the loop goes on after the file.
\<close>

definition fileVCSPushEvent ::
  "Server \<Rightarrow> Repository \<Rightarrow> WebhookPushEvent \<Rightarrow> Commit \<Rightarrow> string \<Rightarrow> VCSPushEvent" where
  "fileVCSPushEvent s repository pushEvent commit added =
     mkVCSPushEvent repository pushEvent commit added
       (case time_Parse s (Commit_Timestamp commit) of Inl err \<Rightarrow> zeroTimeUnix | Inr t \<Rightarrow> t)"

definition fileIssueCreate ::
  "Server \<Rightarrow> Repository \<Rightarrow> WebhookPushEvent \<Rightarrow> Commit \<Rightarrow> string \<Rightarrow> MigrationInfo \<Rightarrow> string \<Rightarrow>
   Database list \<Rightarrow> IssueCreate" where
  "fileIssueCreate s repository pushEvent commit added mi b targets =
     composeIssue repository commit mi b (fileVCSPushEvent s repository pushEvent commit added)
       (loadedPolicies s targets) targets"

definition submittedRequest ::
  "Server \<Rightarrow> Repository \<Rightarrow> WebhookPushEvent \<Rightarrow> Commit \<times> string \<Rightarrow> IssueCreate option" where
  "submittedRequest s repository pushEvent p =
     (case resolveTargets s repository (fst p) (snd p) of
        None \<Rightarrow> None
      | Some (mi, b, targets) \<Rightarrow> Some (fileIssueCreate s repository pushEvent (fst p) (snd p) mi b targets))"

definition createdIssue ::
  "Server \<Rightarrow> Repository \<Rightarrow> WebhookPushEvent \<Rightarrow> Commit \<times> string \<Rightarrow> Issue option" where
  "createdIssue s repository pushEvent p =
     (case resolveTargets s repository (fst p) (snd p) of
        None \<Rightarrow> None
      | Some (mi, b, targets) \<Rightarrow>
          (case CreateIssue s (fileIssueCreate s repository pushEvent (fst p) (snd p) mi b targets)
                  SYSTEM_BOT_ID of
             Inl err \<Rightarrow> None
           | Inr issue \<Rightarrow> Some issue))"

definition createdLine ::
  "Server \<Rightarrow> Repository \<Rightarrow> WebhookPushEvent \<Rightarrow> Commit \<times> string \<Rightarrow> string option" where
  "createdLine s repository pushEvent p =
     (case createdIssue s repository pushEvent p of
        None \<Rightarrow> None
      | Some issue \<Rightarrow> Some (createdMessage s issue (snd p)))"

definition recordingFails :: "Server \<Rightarrow> Repository \<Rightarrow> VCSPushEvent \<Rightarrow> Issue \<Rightarrow> bool" where
  "recordingFails s repository vcsPushEvent issue =
     (case json_Marshal s (createdPayload vcsPushEvent issue) of
        Inl err \<Rightarrow> True
      | Inr bytes \<Rightarrow> isl (CreateActivity s (createdActivity s repository issue bytes)))"

definition recordingError :: "Server \<Rightarrow> Repository \<Rightarrow> VCSPushEvent \<Rightarrow> Issue \<Rightarrow> HTTPResult" where
  "recordingError s repository vcsPushEvent issue =
     (case json_Marshal s (createdPayload vcsPushEvent issue) of
        Inl err \<Rightarrow> HTTPError StatusInternalServerError ''Failed to construct activity payload''
      | Inr bytes \<Rightarrow>
          HTTPError StatusInternalServerError
            (''Failed to create project activity after creating issue from repository push event: ''
               @ Itoa (Issue_ID issue)))"

definition fileFlow :: "Server \<Rightarrow> Repository \<Rightarrow> WebhookPushEvent \<Rightarrow> Commit \<times> string \<Rightarrow> Flow" where
  "fileFlow s repository pushEvent p =
     (if prefix (Repository_BaseDirectory repository) (snd p) \<and> \<not> schemaTemplateCompiles s repository
      then Exit Panic
      else
        (case createdIssue s repository pushEvent p of
           None \<Rightarrow> Continue
         | Some issue \<Rightarrow>
             if recordingFails s repository (fileVCSPushEvent s repository pushEvent (fst p) (snd p)) issue
             then Exit (recordingError s repository
                          (fileVCSPushEvent s repository pushEvent (fst p) (snd p)) issue)
             else Continue))"

subsection \<open>The (commit, added file) pairs of a push event\<close>

text \<open>
  \<open>filePairs\<close> lists the pairs in processing order: commits in payload order, added files
  in payload order within each commit. \<open>pairLoop\<close> is the two nested loops written as one
  loop over these pairs. \<open>processedPairs\<close> are the pairs up to and including the first one
  after which the loop does not continue, and \<open>loopFlow\<close> is how the loops end.
\<close>

definition filePairs :: "Commit list \<Rightarrow> (Commit \<times> string) list" where
  "filePairs commitList =
     concat (map (\<lambda>commit. map (Pair commit) (Commit_AddedList commit)) commitList)"

fun pairLoop ::
  "Server \<Rightarrow> Repository \<Rightarrow> WebhookPushEvent \<Rightarrow> (Commit \<times> string) list \<Rightarrow> State \<Rightarrow> Flow \<times> State" where
  "pairLoop s repository pushEvent [] st = (Continue, st)"
| "pairLoop s repository pushEvent (p # rest) st =
     (case processFile s repository pushEvent (fst p) (snd p) st of
        (Continue, st') \<Rightarrow> pairLoop s repository pushEvent rest st'
      | (Exit r, st') \<Rightarrow> (Exit r, st'))"

definition processedPairs ::
  "Server \<Rightarrow> Repository \<Rightarrow> WebhookPushEvent \<Rightarrow> (Commit \<times> string) list \<Rightarrow> (Commit \<times> string) list" where
  "processedPairs s repository pushEvent ps =
     takeWhile (\<lambda>p. fileFlow s repository pushEvent p = Continue) ps
       @ take 1 (dropWhile (\<lambda>p. fileFlow s repository pushEvent p = Continue) ps)"

definition loopFlow ::
  "Server \<Rightarrow> Repository \<Rightarrow> WebhookPushEvent \<Rightarrow> (Commit \<times> string) list \<Rightarrow> Flow" where
  "loopFlow s repository pushEvent ps =
     (case dropWhile (\<lambda>p. fileFlow s repository pushEvent p = Continue) ps of
        [] \<Rightarrow> Continue
      | p # rest \<Rightarrow> fileFlow s repository pushEvent p)"

subsection \<open>Failing request-level validation\<close>

text \<open>
  The four failures the specification names. A secret or a project id can only mismatch a
  repository configuration that was found and composed for the endpoint.
\<close>

definition receivedEvent :: "Server \<Rightarrow> Request \<Rightarrow> WebhookPushEvent option" where
  "receivedEvent s c =
     (case Request_Body c of
        Inl err \<Rightarrow> None
      | Inr b \<Rightarrow> (case json_Unmarshal s b of Inl err \<Rightarrow> None | Inr pushEvent \<Rightarrow> Some pushEvent))"

definition storedRepository :: "Server \<Rightarrow> Request \<Rightarrow> Repository option" where
  "storedRepository s c =
     (case FindRepository s (Request_ParamId c) of
        Inl err \<Rightarrow> None
      | Inr found \<Rightarrow>
          (case ComposeRepositoryRelationship s found of
             Inl err \<Rightarrow> None
           | Inr repository \<Rightarrow> Some repository))"

definition malformedPayload :: "Server \<Rightarrow> Request \<Rightarrow> bool" where
  "malformedPayload s c = (receivedEvent s c = None)"

definition wrongEventKind :: "Server \<Rightarrow> Request \<Rightarrow> bool" where
  "wrongEventKind s c =
     (case receivedEvent s c of
        None \<Rightarrow> False
      | Some pushEvent \<Rightarrow> PushEvent_ObjectKind pushEvent \<noteq> WebhookPush)"

definition secretMismatch :: "Server \<Rightarrow> Request \<Rightarrow> bool" where
  "secretMismatch s c =
     (case receivedEvent s c of
        None \<Rightarrow> False
      | Some pushEvent \<Rightarrow>
          (case storedRepository s c of
             None \<Rightarrow> False
           | Some repository \<Rightarrow> Request_XGitlabToken c \<noteq> Repository_WebhookSecretToken repository))"

definition projectMismatch :: "Server \<Rightarrow> Request \<Rightarrow> bool" where
  "projectMismatch s c =
     (case receivedEvent s c of
        None \<Rightarrow> False
      | Some pushEvent \<Rightarrow>
          (case storedRepository s c of
             None \<Rightarrow> False
           | Some repository \<Rightarrow>
               Itoa (WebhookProject_ID (PushEvent_Project pushEvent)) \<noteq> Repository_ExternalId repository))"

subsection \<open>Servers that differ only in recording ignored files\<close>

text \<open>
  \<open>successRecordingAgrees s marshal' create'\<close> says that \<open>marshal'\<close> and \<open>create'\<close>
  answer as the server \<open>s\<close> does wherever the success path calls them: on the payload of
  every issue that \<open>s\<close> creates and on every activity that is not of level WARN. On the
  payloads and activities of ignored files they may answer anything.
\<close>

definition successRecordingAgrees ::
  "Server \<Rightarrow> (ActivityProjectRepositoryPushPayload \<Rightarrow> error + string) \<Rightarrow>
   (ActivityCreate \<Rightarrow> error + unit) \<Rightarrow> bool" where
  "successRecordingAgrees s marshal' create' =
     ((\<forall>issueCreate creatorId issue vcsPushEvent.
         CreateIssue s issueCreate creatorId = Inr issue \<longrightarrow>
         marshal' (createdPayload vcsPushEvent issue) = json_Marshal s (createdPayload vcsPushEvent issue)) \<and>
      (\<forall>activityCreate. ActivityCreate_Level activityCreate \<noteq> ACTIVITY_WARN \<longrightarrow>
         create' activityCreate = CreateActivity s activityCreate))"

subsection \<open>Auxiliary definitions of the proofs\<close>

text \<open>
  \<open>core\<close> projects the state to the fields that logging and ignored-file activities
  never change; \<open>entered\<close> is the state after the loop body was entered and the timestamp
  parsed; \<open>addToBucket\<close> is one step of the grouping.
\<close>

definition core :: "State \<Rightarrow> string list \<times> Issue list \<times> IssueCreate list \<times> (Commit \<times> string) list" where
  "core st = (createdMessageList st, issues st, submitted st, visited st)"

definition entered :: "Server \<Rightarrow> Commit \<Rightarrow> string \<Rightarrow> State \<Rightarrow> State" where
  "entered s commit added st0 =
     (let st = st0\<lparr>visited := visited st0 @ [(commit, added)]\<rparr> in
      case time_Parse s (Commit_Timestamp commit) of
        Inl err \<Rightarrow> l_Warn ''Ignored committed file, failed to parse commit timestamp.'' st
      | Inr t \<Rightarrow> st)"

definition addToBucket :: "(int \<times> Database list) list \<Rightarrow> Database \<Rightarrow> (int \<times> Database list) list" where
  "addToBucket al database =
     (case map_of al (environmentIdOf database) of
        Some list \<Rightarrow> AList.update (environmentIdOf database) (list @ [database]) al
      | None \<Rightarrow> AList.update (environmentIdOf database) ([] @ [database]) al)"

definition optList :: "'a option \<Rightarrow> 'a list" where
  "optList x = (case x of None \<Rightarrow> [] | Some y \<Rightarrow> [y])"

section \<open>A concrete repository, push event and server\<close>

text \<open>
  The scenario of the examples: the repository of project 7 with base directory \<^verbatim>\<open>db/\<close>,
  one commit whose added files are a parameter, a database \<open>orders\<close> in the environments
  \<open>prod\<close> (id 1) and \<open>dev\<close> (id 2).
\<close>

definition exRepository :: Repository where
  "exRepository =
     \<lparr>Repository_Name = ''shop'',
      Repository_ProjectId = 7,
      Repository_VCS = \<lparr>VCS_Type = ''GITLAB_SELF_HOST'', VCS_InstanceURL = ''https://gitlab.example.com''\<rparr>,
      Repository_ExternalId = ''42'',
      Repository_WebhookSecretToken = ''s3cret'',
      Repository_AccessToken = ''token'',
      Repository_BaseDirectory = ''db/'',
      Repository_FilePathTemplate = ''{{ENV_NAME}}/{{DB_NAME}}__v{{VERSION}}.sql'',
      Repository_SchemaPathTemplate = []\<rparr>"

definition exCommit :: "string list \<Rightarrow> Commit" where
  "exCommit addedList =
     \<lparr>Commit_ID = ''abc123'',
      Commit_Title = ''Add column'',
      Commit_Message = ''Add a column to orders'',
      Commit_Timestamp = ''2021-06-01T10:00:00Z'',
      Commit_URL = ''https://gitlab.example.com/shop/-/commit/abc123'',
      Commit_Author = \<lparr>CommitAuthor_Name = ''dev''\<rparr>,
      Commit_AddedList = addedList\<rparr>"

definition exPushEvent :: "string list \<Rightarrow> WebhookPushEvent" where
  "exPushEvent addedList =
     \<lparr>PushEvent_ObjectKind = ''push'',
      PushEvent_Ref = ''refs/heads/main'',
      PushEvent_AuthorName = ''dev'',
      PushEvent_Project =
        \<lparr>WebhookProject_ID = 42, WebhookProject_WebURL = ''https://gitlab.example.com/shop'',
         WebhookProject_FullPath = ''shop''\<rparr>,
      PushEvent_CommitList = [exCommit addedList]\<rparr>"

definition exProdFile :: string where
  "exProdFile = ''db/prod/orders__v3.sql''"

definition exAllFile :: string where
  "exAllFile = ''db/orders__v4.sql''"

definition exNotesFile :: string where
  "exNotesFile = ''db/notes.txt''"

definition exOutsideFile :: string where
  "exOutsideFile = ''README.md''"

definition exSchemaFile :: string where
  "exSchemaFile = ''db/prod/orders__LATEST.sql''"

definition exProdMigration :: MigrationInfo where
  "exProdMigration =
     \<lparr>MigrationInfo_Database = ''orders'', MigrationInfo_Environment = ''prod'',
      MigrationInfo_Type = ''MIGRATE'', MigrationInfo_Description = ''v3''\<rparr>"

definition exAllMigration :: MigrationInfo where
  "exAllMigration =
     \<lparr>MigrationInfo_Database = ''orders'', MigrationInfo_Environment = [],
      MigrationInfo_Type = ''MIGRATE'', MigrationInfo_Description = ''v4''\<rparr>"

definition exStatement :: string where
  "exStatement = ''ALTER TABLE orders ADD COLUMN note TEXT;''"

definition exProd :: "int \<Rightarrow> Database" where
  "exProd databaseId =
     \<lparr>Database_ID = databaseId, Database_InstanceId = 5,
      Database_Instance =
        \<lparr>Instance_EnvironmentId = 1,
         Instance_Environment = \<lparr>Environment_ID = 1, Environment_Name = ''prod''\<rparr>\<rparr>\<rparr>"

definition exDev :: "int \<Rightarrow> Database" where
  "exDev databaseId =
     \<lparr>Database_ID = databaseId, Database_InstanceId = 6,
      Database_Instance =
        \<lparr>Instance_EnvironmentId = 2,
         Instance_Environment = \<lparr>Environment_ID = 2, Environment_Name = ''dev''\<rparr>\<rparr>\<rparr>"

definition exFailure :: error where
  "exFailure = Error Internal ''unavailable''"

definition exIssue :: Issue where
  "exIssue = \<lparr>Issue_ID = 101, Issue_Name = ''Add column''\<rparr>"

definition exLine :: "string \<Rightarrow> string" where
  "exLine added = ''Created issue '' @ CHR 0x22 # ''Add column'' @ CHR 0x22 # '' on adding '' @ added"

text \<open>
  A server whose collaborators all succeed. The parser knows the two migration files, the
  project owns the databases \<open>databaseList\<close> under the name \<open>orders\<close>, environment 2
  runs without approval and every other environment needs one.
\<close>

definition exServer :: "string list \<Rightarrow> Database list \<Rightarrow> Server" where
  "exServer addedList databaseList =
     \<lparr>json_Unmarshal = (\<lambda>b. if b = ''{}'' then Inr (exPushEvent addedList) else Inl exFailure),
      FindRepository = (\<lambda>i. if i = ''hook1'' then Inr exRepository else Inl (Error NotFound ''not found'')),
      ComposeRepositoryRelationship = Inr,
      time_Parse = (\<lambda>t. Inr 1622541600),
      regexp_Compile = (\<lambda>r. Inl exFailure),
      filepath_Join = (\<lambda>a b. a @ b),
      ParseMigrationInfo =
        (\<lambda>path template.
           if path = ''db/prod/orders__v3.sql'' then Inr exProdMigration
           else if path = ''db/orders__v4.sql'' then Inr exAllMigration
           else Inl exFailure),
      url_QueryEscape = (\<lambda>p. p),
      gitlab_GET = (\<lambda>u p t. Inr (Inr exStatement)),
      ComposeDatabaseListByFind = (\<lambda>projectId name. if name = ''orders'' then Inr databaseList else Inr []),
      strings_EqualFold = (\<lambda>a b. a = b),
      GetPipelineApprovalPolicy =
        (\<lambda>environmentId.
           Inr \<lparr>PipelineApprovalPolicy_Value =
                  (if environmentId = 2 then ''MANUAL_APPROVAL_NEVER'' else ''MANUAL_APPROVAL_ALWAYS'')\<rparr>),
      CreateIssue =
        (\<lambda>issueCreate creatorId. Inr \<lparr>Issue_ID = 101, Issue_Name = IssueCreate_Name issueCreate\<rparr>),
      json_Marshal = (\<lambda>payload. Inr ''payload''),
      CreateActivity = (\<lambda>activityCreate. Inr ()),
      fmt_q = (\<lambda>x. CHR 0x22 # x @ [CHR 0x22])\<rparr>"

definition exRequest :: Request where
  "exRequest = \<lparr>Request_Body = Inr ''{}'', Request_XGitlabToken = ''s3cret'', Request_ParamId = ''hook1''\<rparr>"

text \<open>Collaborators that fail, a repository with a schema path template, and invalid events.\<close>

definition issueCreationFails :: "Server \<Rightarrow> Server" where
  "issueCreationFails s = s\<lparr>CreateIssue := (\<lambda>issueCreate creatorId. Inl exFailure)\<rparr>"

definition policyLookupFails :: "Server \<Rightarrow> Server" where
  "policyLookupFails s = s\<lparr>GetPipelineApprovalPolicy := (\<lambda>environmentId. Inl exFailure)\<rparr>"

definition activityCreationFails :: "Server \<Rightarrow> Server" where
  "activityCreationFails s = s\<lparr>CreateActivity := (\<lambda>activityCreate. Inl exFailure)\<rparr>"

definition exIgnoreMarshalFails :: "Server \<Rightarrow> ActivityProjectRepositoryPushPayload \<Rightarrow> error + string" where
  "exIgnoreMarshalFails s payload =
     (if Payload_IssueId payload = 0 \<and> Payload_IssueName payload = [] then Inl exFailure
      else json_Marshal s payload)"

definition exWarnActivityFails :: "Server \<Rightarrow> ActivityCreate \<Rightarrow> error + unit" where
  "exWarnActivityFails s activityCreate =
     (if ActivityCreate_Level activityCreate = ACTIVITY_WARN then Inl exFailure
      else CreateActivity s activityCreate)"

definition exSchemaRepository :: Repository where
  "exSchemaRepository =
     exRepository\<lparr>Repository_SchemaPathTemplate := ''db/{{ENV_NAME}}/{{DB_NAME}}__LATEST.sql''\<rparr>"

definition exSchemaServer :: Server where
  "exSchemaServer =
     (exServer [''db/prod/orders__LATEST.sql''] [])
       \<lparr>FindRepository := (\<lambda>i. Inr exSchemaRepository),
        regexp_Compile :=
          (\<lambda>r. if r = ''db/(?P<ENV_NAME>[a-zA-Z0-9+-=/_#?!$. ]+)/(?P<DB_NAME>[a-zA-Z0-9+-=/_#?!$. ]+)__LATEST.sql''
                then Inr (\<lambda>path. path = ''db/prod/orders__LATEST.sql'') else Inl exFailure)\<rparr>"

definition exWrongKindServer :: Server where
  "exWrongKindServer =
     (exServer [exProdFile] [exProd 11])
       \<lparr>json_Unmarshal := (\<lambda>b. Inr ((exPushEvent [exProdFile])\<lparr>PushEvent_ObjectKind := ''tag_push''\<rparr>))\<rparr>"

definition exOtherProjectServer :: Server where
  "exOtherProjectServer =
     (exServer [exProdFile] [exProd 11])
       \<lparr>json_Unmarshal :=
          (\<lambda>b. Inr ((exPushEvent [exProdFile])
                  \<lparr>PushEvent_Project :=
                     \<lparr>WebhookProject_ID = 43, WebhookProject_WebURL = ''https://gitlab.example.com/other'',
                      WebhookProject_FullPath = ''other''\<rparr>\<rparr>))\<rparr>"

lemmas ex_defs =
  exRepository_def exCommit_def exPushEvent_def exProdMigration_def exAllMigration_def
  exProd_def exDev_def exFailure_def exServer_def exRequest_def exProdFile_def exAllFile_def
  exNotesFile_def exOutsideFile_def exSchemaFile_def exStatement_def exIssue_def exLine_def
  issueCreationFails_def policyLookupFails_def activityCreationFails_def
  exIgnoreMarshalFails_def exWarnActivityFails_def exSchemaRepository_def exSchemaServer_def

lemmas ex_defs2 = exWrongKindServer_def exOtherProjectServer_def

lemmas model_defs =
  handler_def validate_def processFile_def processMigration_def createIssueForFile_def
  createIgnoredFileActivity_def schemaFileCheck_def schemafilePathRegex_def mkVCSPushEvent_def
  filterByEnvironment_def
  composeIssue_def composeStage_def approvalOf_def createdMessage_def createdPayload_def
  createdActivity_def ignoredFileActivity_def ignoredFilePayload_def rawFilePath_def
  environmentIdOf_def environmentNameOf_def l_Warn_def l_Debug_def initState_def WebhookPush_def
  Itoa_def itoa_nat.simps Errorf_def policyLookupFailed_def findFailed_def notOwned_def
  notInEnvironment_def ambiguousMessage_def SYSTEM_BOT_ID_def PipelineApprovalValueManualNever_def
  zeroTimeUnix_def Let_def

lemmas spec_defs =
  resolveTargets_def schemaTemplateCompiles_def matchesSchemaTemplate_def parsedMigration_def
  fetchedContent_def candidates_def ambiguous_def bucket_def policiesLoaded_def loadedPolicies_def
  fileVCSPushEvent_def fileIssueCreate_def createdIssue_def createdLine_def submittedRequest_def
  recordingFails_def recordingError_def filePairs_def

lemmas validation_defs =
  malformedPayload_def wrongEventKind_def secretMismatch_def projectMismatch_def
  receivedEvent_def storedRepository_def

section \<open>Properties of the steps\<close>

subsection \<open>Logging and ignored-file activities leave the core of the state alone\<close>

lemma core_l_Warn [simp]: "core (l_Warn msg st) = core st"
  by (simp add: core_def l_Warn_def)

lemma core_l_Debug [simp]: "core (l_Debug msg st) = core st"
  by (simp add: core_def l_Debug_def)

lemma activities_l_Warn [simp]: "activities (l_Warn msg st) = activities st"
  by (simp add: l_Warn_def)

lemma activities_l_Debug [simp]: "activities (l_Debug msg st) = activities st"
  by (simp add: l_Debug_def)

lemma core_createIgnoredFileActivity [simp]:
  "core (createIgnoredFileActivity s repository added vcsPushEvent err st) = core st"
  by (simp add: createIgnoredFileActivity_def core_def l_Warn_def Let_def split: sum.splits)

subsection \<open>The grouping loop and the ambiguity check\<close>

lemma groupLoop_policies:
  "fst (snd (groupLoop s ignored databaseList (al, pa, st))) =
     (\<lambda>e. case pa e of Some v \<Rightarrow> Some v | None \<Rightarrow> loadedPolicies s databaseList e)"
  by (induction databaseList arbitrary: al pa st)
     (auto simp: loadedPolicies_def fun_eq_iff Let_def split: option.splits sum.splits)

lemma map_of_addToBucket:
  "map_of (addToBucket al database) e =
     (if e = environmentIdOf database
      then Some ((case map_of al e of None \<Rightarrow> [] | Some l \<Rightarrow> l) @ [database])
      else map_of al e)"
  by (auto simp: addToBucket_def update_conv' split: option.splits)

lemma distinct_addToBucket:
  "distinct (map fst al) \<Longrightarrow> distinct (map fst (addToBucket al database))"
  by (auto simp: addToBucket_def distinct_update split: option.splits)

lemma groupLoop_buckets:
  "fst (groupLoop s ignored databaseList (al, pa, st)) =
     fold (\<lambda>database al. addToBucket al database) databaseList al"
  by (induction databaseList arbitrary: al pa st)
     (auto simp: addToBucket_def Let_def split: option.splits sum.splits)

lemma map_of_fold_addToBucket:
  "map_of (fold (\<lambda>database al. addToBucket al database) databaseList al) e =
     (if bucket e databaseList = [] then map_of al e
      else Some ((case map_of al e of None \<Rightarrow> [] | Some l \<Rightarrow> l) @ bucket e databaseList))"
  by (induction databaseList arbitrary: al)
     (auto simp: map_of_addToBucket bucket_def split: option.splits)

lemma distinct_fold_addToBucket:
  "distinct (map fst al) \<Longrightarrow>
   distinct (map fst (fold (\<lambda>database al. addToBucket al database) databaseList al))"
  by (induction databaseList arbitrary: al) (auto simp: distinct_addToBucket)

lemma ambiguityLoop_flag:
  "fst (ambiguityLoop s mi al (flag, st)) = (flag \<or> (\<exists>p \<in> set al. 1 < length (snd p)))"
  by (induction s mi al "(flag, st)" arbitrary: flag st rule: ambiguityLoop.induct) simp_all

lemma ambiguityLoop_core [simp]:
  "core (snd (ambiguityLoop s mi al (flag, st))) = core st"
  by (induction s mi al "(flag, st)" arbitrary: flag st rule: ambiguityLoop.induct) simp_all

lemma ambiguityLoop_activities [simp]:
  "activities (snd (ambiguityLoop s mi al (flag, st))) = activities st"
  by (induction s mi al "(flag, st)" arbitrary: flag st rule: ambiguityLoop.induct) simp_all

lemma bucket_nonempty_iff: "bucket e databaseList \<noteq> [] \<longleftrightarrow> e \<in> environmentIdOf ` set databaseList"
  by (auto simp: bucket_def filter_empty_conv)

lemma grouped_ambiguous:
  assumes "al = fold (\<lambda>database al. addToBucket al database) databaseList []"
  shows "(\<exists>p \<in> set al. 1 < length (snd p)) \<longleftrightarrow> ambiguous databaseList"
proof -
  have d: "distinct (map fst al)"
    unfolding assms by (rule distinct_fold_addToBucket) simp
  have m: "map_of al e = (if bucket e databaseList = [] then None else Some (bucket e databaseList))" for e
    unfolding assms by (simp add: map_of_fold_addToBucket)
  have "(\<exists>p \<in> set al. 1 < length (snd p)) \<longleftrightarrow> (\<exists>e l. map_of al e = Some l \<and> 1 < length l)"
    using d by (metis map_of_eq_Some_iff prod.collapse snd_conv)
  also have "\<dots> \<longleftrightarrow> (\<exists>e. 1 < length (bucket e databaseList))"
  proof
    assume "\<exists>e l. map_of al e = Some l \<and> 1 < length l"
    then show "\<exists>e. 1 < length (bucket e databaseList)"
      by (auto simp: m split: if_splits)
  next
    assume "\<exists>e. 1 < length (bucket e databaseList)"
    then obtain e where e: "1 < length (bucket e databaseList)" ..
    then have "bucket e databaseList \<noteq> []" by auto
    with e have "map_of al e = Some (bucket e databaseList) \<and> 1 < length (bucket e databaseList)"
      by (simp add: m)
    then show "\<exists>e l. map_of al e = Some l \<and> 1 < length l" by blast
  qed
  also have "\<dots> \<longleftrightarrow> ambiguous databaseList"
    unfolding ambiguous_def
    by (metis bucket_nonempty_iff imageE imageI length_0_conv less_nat_zero_code list.size(3))
  finally show ?thesis .
qed

lemma groupLoop_core:
  assumes "\<And>err st. core (ignored err st) = core st"
  shows "core (snd (snd (groupLoop s ignored databaseList (al, pa, st)))) = core st"
  using assms
  by (induction databaseList arbitrary: al pa st)
     (auto simp: Let_def split: option.splits sum.splits)

lemma groupLoop_state_loaded:
  "policiesLoaded s databaseList \<Longrightarrow>
   snd (snd (groupLoop s ignored databaseList (al, pa, st))) = st"
  by (induction databaseList arbitrary: al pa st)
     (auto simp: Let_def policiesLoaded_def split: option.splits sum.splits)

subsection \<open>One file\<close>

lemma processMigration_found:
  assumes "ComposeDatabaseListByFind s (Repository_ProjectId repository) (MigrationInfo_Database mi) = Inr databaseList"
    and "filterByEnvironment s mi databaseList = targets"
    and "targets \<noteq> []"
  shows "\<exists>st2. core st2 = core st \<and> (policiesLoaded s targets \<longrightarrow> activities st2 = activities st) \<and>
     processMigration s repository commit added vcsPushEvent mi b st =
       (if ambiguous targets then (Continue, st2)
        else createIssueForFile s repository added vcsPushEvent
               (composeIssue repository commit mi b vcsPushEvent (loadedPolicies s targets) targets) st2)"
proof -
  define ignored where "ignored = createIgnoredFileActivity s repository added vcsPushEvent"
  define g where "g = groupLoop s ignored targets ([], Map.empty, st)"
  define a where "a = ambiguityLoop s mi (fst g) (False, snd (snd g))"
  have b: "fst g = fold (\<lambda>database al. addToBucket al database) targets []"
    unfolding g_def by (rule groupLoop_buckets)
  have amb: "fst a = ambiguous targets"
    unfolding a_def using grouped_ambiguous [OF b] by (simp add: ambiguityLoop_flag)
  have pol: "fst (snd g) = loadedPolicies s targets"
    unfolding g_def by (simp add: groupLoop_policies)
  have "core (snd (snd g)) = core st"
    unfolding g_def ignored_def by (rule groupLoop_core) simp
  then have cor: "core (snd a) = core st"
    unfolding a_def by simp
  have act: "activities (snd a) = activities st" if "policiesLoaded s targets"
    unfolding a_def g_def using that by (simp add: groupLoop_state_loaded)
  have ne: "databaseList \<noteq> []"
    using assms(2,3) by (auto simp: filterByEnvironment_def split: if_splits)
  have "processMigration s repository commit added vcsPushEvent mi b st =
       (if fst a then (Continue, snd a)
        else createIssueForFile s repository added vcsPushEvent
               (composeIssue repository commit mi b vcsPushEvent (fst (snd g)) targets) (snd a))"
    unfolding processMigration_def a_def g_def ignored_def
    using assms ne by (simp add: Let_def split: prod.splits)
  with amb pol cor act show ?thesis by auto
qed

lemma resolveTargets_SomeD:
  assumes "resolveTargets s repository commit added = Some (mi, b, targets)"
  shows "prefix (Repository_BaseDirectory repository) added"
    and "schemaTemplateCompiles s repository"
    and "\<not> matchesSchemaTemplate s repository added"
    and "parsedMigration s repository added = Inr mi"
    and "fetchedContent s repository commit added = Inr b"
    and "candidates s repository mi = Inr targets"
    and "targets \<noteq> []"
    and "\<not> ambiguous targets"
  using assms by (auto simp: resolveTargets_def split: if_splits sum.splits)

lemma schemaFileCheck_cases:
  "schemaFileCheck s repository added st =
     (if \<not> schemaTemplateCompiles s repository
      then (SchemaFilePanic, l_Warn ''Invalid schema path template.'' st)
      else if matchesSchemaTemplate s repository added then (SchemaFileMatch, st)
      else (SchemaFileNoMatch, st))"
  by (auto simp: schemaFileCheck_def schemaTemplateCompiles_def matchesSchemaTemplate_def
      split: sum.splits)

lemma core_entered [simp]:
  "core (entered s commit added st) =
     (createdMessageList st, issues st, submitted st, visited st @ [(commit, added)])"
  by (simp add: entered_def core_def l_Warn_def Let_def split: sum.splits)

lemma activities_entered [simp]: "activities (entered s commit added st) = activities st"
  by (simp add: entered_def l_Warn_def Let_def split: sum.splits)

lemma processFile_inside:
  assumes "prefix (Repository_BaseDirectory repository) added"
  shows "processFile s repository pushEvent commit added st =
     (if \<not> schemaTemplateCompiles s repository
      then (Exit Panic, l_Warn ''Invalid schema path template.'' (entered s commit added st))
      else if matchesSchemaTemplate s repository added then (Continue, entered s commit added st)
      else
        (case parsedMigration s repository added of
           Inl err \<Rightarrow>
             (Continue,
              createIgnoredFileActivity s repository added
                (fileVCSPushEvent s repository pushEvent commit added) err (entered s commit added st))
         | Inr mi \<Rightarrow>
             (case fetchedContent s repository commit added of
                Inl err \<Rightarrow>
                  (Continue,
                   createIgnoredFileActivity s repository added
                     (fileVCSPushEvent s repository pushEvent commit added)
                     (Errorf ((if isl (gitlab_GET s (VCS_InstanceURL (Repository_VCS repository))
                                        (rawFilePath s repository commit added)
                                        (Repository_AccessToken repository))
                               then ''failed to read file: '' else ''failed to read file response: '')
                              @ ErrorMessage err))
                     (entered s commit added st))
              | Inr b \<Rightarrow>
                  processMigration s repository commit added
                    (fileVCSPushEvent s repository pushEvent commit added) mi b
                    (entered s commit added st))))"
  using assms
  by (auto simp: processFile_def schemaFileCheck_cases entered_def fileVCSPushEvent_def
      parsedMigration_def fetchedContent_def Let_def split: sum.splits)

lemma processFile_outside:
  assumes "\<not> prefix (Repository_BaseDirectory repository) added"
  shows "processFile s repository pushEvent commit added st =
     (Continue, l_Debug ''Ignored committed file, not under base directory.''
        (st\<lparr>visited := visited st @ [(commit, added)]\<rparr>))"
  using assms by (simp add: processFile_def Let_def)

lemma processMigration_not_found:
  assumes "candidates s repository mi = Inl err \<or> candidates s repository mi = Inr []"
  shows "\<exists>e. processMigration s repository commit added vcsPushEvent mi b st =
     (Continue, createIgnoredFileActivity s repository added vcsPushEvent e st)"
  using assms
  by (auto simp: processMigration_def candidates_def filterByEnvironment_def Let_def
      split: sum.splits if_splits)

lemma createIssueForFile_failed:
  assumes "CreateIssue s issueCreate SYSTEM_BOT_ID = Inl err"
  shows "createIssueForFile s repository added vcsPushEvent issueCreate st =
     (Continue, l_Warn ''Failed to create update schema task for added repository file''
        (st\<lparr>submitted := submitted st @ [issueCreate]\<rparr>))"
  using assms by (simp add: createIssueForFile_def Let_def)

lemma createIssueForFile_created:
  assumes "CreateIssue s issueCreate SYSTEM_BOT_ID = Inr issue"
  shows "\<exists>st'. createIssueForFile s repository added vcsPushEvent issueCreate st =
       (if recordingFails s repository vcsPushEvent issue
        then Exit (recordingError s repository vcsPushEvent issue) else Continue, st') \<and>
     issues st' = issues st @ [issue] \<and> submitted st' = submitted st @ [issueCreate] \<and>
     createdMessageList st' = createdMessageList st @ [createdMessage s issue added] \<and>
     visited st' = visited st"
  using assms
  by (auto simp: createIssueForFile_def recordingFails_def recordingError_def Let_def split: sum.splits)

lemma processFile_resolved:
  assumes "resolveTargets s repository commit added = Some (mi, b, targets)"
  shows "\<exists>st2. core st2 = (createdMessageList st, issues st, submitted st, visited st @ [(commit, added)]) \<and>
     (policiesLoaded s targets \<longrightarrow> activities st2 = activities st) \<and>
     processFile s repository pushEvent commit added st =
       createIssueForFile s repository added (fileVCSPushEvent s repository pushEvent commit added)
         (fileIssueCreate s repository pushEvent commit added mi b targets) st2"
proof -
  note r = resolveTargets_SomeD [OF assms]
  from r(6) obtain databaseList where
    f: "ComposeDatabaseListByFind s (Repository_ProjectId repository) (MigrationInfo_Database mi) = Inr databaseList"
    and t: "filterByEnvironment s mi databaseList = targets"
    by (auto simp: candidates_def split: sum.splits)
  from processMigration_found [OF f t r(7), where st = "entered s commit added st" and commit = commit
      and added = added and vcsPushEvent = "fileVCSPushEvent s repository pushEvent commit added" and b = b]
  obtain st2 where "core st2 = core (entered s commit added st)"
    and "policiesLoaded s targets \<longrightarrow> activities st2 = activities (entered s commit added st)"
    and "processMigration s repository commit added (fileVCSPushEvent s repository pushEvent commit added) mi b
           (entered s commit added st) =
         createIssueForFile s repository added (fileVCSPushEvent s repository pushEvent commit added)
           (composeIssue repository commit mi b (fileVCSPushEvent s repository pushEvent commit added)
              (loadedPolicies s targets) targets) st2"
    using r(8) by auto
  then show ?thesis
    using r(1-5) by (auto simp: processFile_inside fileIssueCreate_def)
qed

lemma processFile_unresolved:
  assumes "resolveTargets s repository commit added = None"
  shows "\<exists>st'. processFile s repository pushEvent commit added st =
       (if prefix (Repository_BaseDirectory repository) added \<and> \<not> schemaTemplateCompiles s repository
        then Exit Panic else Continue, st') \<and>
     core st' = (createdMessageList st, issues st, submitted st, visited st @ [(commit, added)])"
proof (cases "prefix (Repository_BaseDirectory repository) added")
  case False
  then show ?thesis by (simp add: processFile_outside core_def l_Debug_def)
next
  case True
  show ?thesis
  proof (cases "schemaTemplateCompiles s repository \<and> \<not> matchesSchemaTemplate s repository added")
    case False
    with True show ?thesis by (auto simp: processFile_inside)
  next
    case c: True
    show ?thesis
    proof (cases "parsedMigration s repository added")
      case (Inl err)
      with True c show ?thesis by (simp add: processFile_inside)
    next
      case (Inr mi)
      show ?thesis
      proof (cases "fetchedContent s repository commit added")
        case (Inl err)
        with True c Inr show ?thesis by (simp add: processFile_inside)
      next
        case b: (Inr b)
        show ?thesis
        proof (cases "candidates s repository mi")
          case (Inl err)
          from processMigration_not_found [OF disjI1 [OF Inl]]
          show ?thesis using True c Inr b
            by (simp add: processFile_inside) (metis core_createIgnoredFileActivity core_entered)
        next
          case t: (Inr targets)
          show ?thesis
          proof (cases "targets = []")
            case e: True
            from processMigration_not_found [where s = s and repository = repository and mi = mi] t e
            show ?thesis using True c Inr b
              by (simp add: processFile_inside) (metis core_createIgnoredFileActivity core_entered)
          next
            case False
            with assms True c Inr b t have amb: "ambiguous targets"
              by (auto simp: resolveTargets_def split: if_splits)
            from t obtain databaseList where
              f: "ComposeDatabaseListByFind s (Repository_ProjectId repository) (MigrationInfo_Database mi) = Inr databaseList"
              and ft: "filterByEnvironment s mi databaseList = targets"
              by (auto simp: candidates_def split: sum.splits)
            from processMigration_found [OF f ft False, where st = "entered s commit added st" and commit = commit
              and added = added and vcsPushEvent = "fileVCSPushEvent s repository pushEvent commit added" and b = b] amb
            show ?thesis using True c Inr b by (auto simp: processFile_inside)
          qed
        qed
      qed
    qed
  qed
qed

lemma processFile_step:
  "\<exists>st'. processFile s repository pushEvent commit added st =
       (fileFlow s repository pushEvent (commit, added), st') \<and>
     issues st' = issues st @ optList (createdIssue s repository pushEvent (commit, added)) \<and>
     createdMessageList st' = createdMessageList st @ optList (createdLine s repository pushEvent (commit, added)) \<and>
     submitted st' = submitted st @ optList (submittedRequest s repository pushEvent (commit, added)) \<and>
     visited st' = visited st @ [(commit, added)]"
proof (cases "resolveTargets s repository commit added")
  case None
  from processFile_unresolved [OF None, where pushEvent = pushEvent and st = st] None
  show ?thesis
    by (auto simp: core_def createdIssue_def createdLine_def submittedRequest_def fileFlow_def optList_def)
next
  case (Some r)
  obtain mi b targets where r: "r = (mi, b, targets)" by (cases r)
  note d = resolveTargets_SomeD [OF Some [unfolded r]]
  from processFile_resolved [OF Some [unfolded r], where pushEvent = pushEvent and st = st]
  obtain st2 where c: "core st2 = (createdMessageList st, issues st, submitted st, visited st @ [(commit, added)])"
    and p: "processFile s repository pushEvent commit added st =
       createIssueForFile s repository added (fileVCSPushEvent s repository pushEvent commit added)
         (fileIssueCreate s repository pushEvent commit added mi b targets) st2"
    by auto
  show ?thesis
  proof (cases "CreateIssue s (fileIssueCreate s repository pushEvent commit added mi b targets) SYSTEM_BOT_ID")
    case (Inl err)
    with p c Some r d(2) show ?thesis
      by (auto simp: createIssueForFile_failed core_def createdIssue_def createdLine_def
          submittedRequest_def fileFlow_def optList_def l_Warn_def)
  next
    case (Inr issue)
    from createIssueForFile_created [OF Inr, where repository = repository and added = added
        and vcsPushEvent = "fileVCSPushEvent s repository pushEvent commit added" and st = st2]
    obtain st' where "createIssueForFile s repository added (fileVCSPushEvent s repository pushEvent commit added)
         (fileIssueCreate s repository pushEvent commit added mi b targets) st2 =
       (if recordingFails s repository (fileVCSPushEvent s repository pushEvent commit added) issue
        then Exit (recordingError s repository (fileVCSPushEvent s repository pushEvent commit added) issue)
        else Continue, st')"
      and "issues st' = issues st2 @ [issue]"
      and "submitted st' = submitted st2 @ [fileIssueCreate s repository pushEvent commit added mi b targets]"
      and "createdMessageList st' = createdMessageList st2 @ [createdMessage s issue added]"
      and "visited st' = visited st2"
      by blast
    with p c Some r Inr d(2) show ?thesis
      by (auto simp: core_def createdIssue_def createdLine_def submittedRequest_def fileFlow_def optList_def)
  qed
qed

subsection \<open>The loops and the handler\<close>

lemma pairLoop_append:
  "pairLoop s repository pushEvent (xs @ ys) st =
     (case pairLoop s repository pushEvent xs st of
        (Continue, st') \<Rightarrow> pairLoop s repository pushEvent ys st'
      | (Exit r, st') \<Rightarrow> (Exit r, st'))"
  by (induction xs arbitrary: st) (auto split: prod.splits Flow.splits)

lemma addedLoop_pairLoop:
  "addedLoop s repository pushEvent commit addedList st =
     pairLoop s repository pushEvent (map (Pair commit) addedList) st"
  by (induction addedList arbitrary: st) (auto split: prod.splits Flow.splits)

lemma commitLoop_pairLoop:
  "commitLoop s repository pushEvent commitList st =
     pairLoop s repository pushEvent (filePairs commitList) st"
  by (induction commitList arbitrary: st)
     (auto simp: filePairs_def pairLoop_append addedLoop_pairLoop split: prod.splits Flow.splits)

lemma pairLoop_char:
  "\<exists>st'. pairLoop s repository pushEvent ps st = (loopFlow s repository pushEvent ps, st') \<and>
     issues st' = issues st @
       List.map_filter (createdIssue s repository pushEvent) (processedPairs s repository pushEvent ps) \<and>
     createdMessageList st' = createdMessageList st @
       List.map_filter (createdLine s repository pushEvent) (processedPairs s repository pushEvent ps) \<and>
     submitted st' = submitted st @
       List.map_filter (submittedRequest s repository pushEvent) (processedPairs s repository pushEvent ps) \<and>
     visited st' = visited st @ processedPairs s repository pushEvent ps"
proof (induction ps arbitrary: st)
  case Nil
  show ?case by (simp add: loopFlow_def processedPairs_def List.map_filter_def)
next
  case (Cons p rest)
  from processFile_step [of s repository pushEvent "fst p" "snd p" st]
  obtain st1 where p: "processFile s repository pushEvent (fst p) (snd p) st = (fileFlow s repository pushEvent p, st1)"
    and i: "issues st1 = issues st @ optList (createdIssue s repository pushEvent p)"
    and c: "createdMessageList st1 = createdMessageList st @ optList (createdLine s repository pushEvent p)"
    and u: "submitted st1 = submitted st @ optList (submittedRequest s repository pushEvent p)"
    and v: "visited st1 = visited st @ [p]"
    by auto
  show ?case
  proof (cases "fileFlow s repository pushEvent p")
    case Continue
    from Cons.IH [of st1] obtain st' where
      "pairLoop s repository pushEvent rest st1 = (loopFlow s repository pushEvent rest, st')"
      "issues st' = issues st1 @
         List.map_filter (createdIssue s repository pushEvent) (processedPairs s repository pushEvent rest)"
      "createdMessageList st' = createdMessageList st1 @
         List.map_filter (createdLine s repository pushEvent) (processedPairs s repository pushEvent rest)"
      "submitted st' = submitted st1 @
         List.map_filter (submittedRequest s repository pushEvent) (processedPairs s repository pushEvent rest)"
      "visited st' = visited st1 @ processedPairs s repository pushEvent rest"
      by blast
    with p i c u v Continue show ?thesis
      by (simp add: loopFlow_def processedPairs_def optList_def split: option.splits)
  next
    case (Exit r)
    with p i c u v show ?thesis
      by (simp add: loopFlow_def processedPairs_def optList_def List.map_filter_def split: option.splits)
  qed
qed

lemma validate_Inl:
  "validate s c = Inl r \<Longrightarrow> \<exists>code msg. r = HTTPError code msg \<and> code \<noteq> StatusOK"
  by (auto simp: validate_def split: sum.splits if_splits)

lemma fileFlow_cases:
  "fileFlow s repository pushEvent p = Continue \<or> fileFlow s repository pushEvent p = Exit Panic \<or>
   (\<exists>msg. fileFlow s repository pushEvent p = Exit (HTTPError StatusInternalServerError msg))"
  by (auto simp: fileFlow_def recordingError_def split: option.splits sum.splits)

lemma loopFlow_cases:
  "loopFlow s repository pushEvent ps = Continue \<or> loopFlow s repository pushEvent ps = Exit Panic \<or>
   (\<exists>msg. loopFlow s repository pushEvent ps = Exit (HTTPError StatusInternalServerError msg))"
  using fileFlow_cases by (auto simp: loopFlow_def split: list.splits)

lemma handler_validated:
  assumes "validate s c = Inr (pushEvent, repository)"
  shows "\<exists>st. handler s c =
       (case loopFlow s repository pushEvent (filePairs (PushEvent_CommitList pushEvent)) of
          Continue \<Rightarrow> StringResponse StatusOK (Join (createdMessageList st) [CHR 0x0A])
        | Exit r \<Rightarrow> r, st) \<and>
     issues st = List.map_filter (createdIssue s repository pushEvent)
       (processedPairs s repository pushEvent (filePairs (PushEvent_CommitList pushEvent))) \<and>
     createdMessageList st = List.map_filter (createdLine s repository pushEvent)
       (processedPairs s repository pushEvent (filePairs (PushEvent_CommitList pushEvent))) \<and>
     submitted st = List.map_filter (submittedRequest s repository pushEvent)
       (processedPairs s repository pushEvent (filePairs (PushEvent_CommitList pushEvent))) \<and>
     visited st = processedPairs s repository pushEvent (filePairs (PushEvent_CommitList pushEvent))"
proof -
  from pairLoop_char [of s repository pushEvent "filePairs (PushEvent_CommitList pushEvent)" initState]
  obtain st where "pairLoop s repository pushEvent (filePairs (PushEvent_CommitList pushEvent)) initState =
      (loopFlow s repository pushEvent (filePairs (PushEvent_CommitList pushEvent)), st)"
    and "issues st = issues initState @ List.map_filter (createdIssue s repository pushEvent)
       (processedPairs s repository pushEvent (filePairs (PushEvent_CommitList pushEvent)))"
    and "createdMessageList st = createdMessageList initState @ List.map_filter (createdLine s repository pushEvent)
       (processedPairs s repository pushEvent (filePairs (PushEvent_CommitList pushEvent)))"
    and "submitted st = submitted initState @ List.map_filter (submittedRequest s repository pushEvent)
       (processedPairs s repository pushEvent (filePairs (PushEvent_CommitList pushEvent)))"
    and "visited st = visited initState @ processedPairs s repository pushEvent (filePairs (PushEvent_CommitList pushEvent))"
    by blast
  with assms show ?thesis
    by (auto simp: handler_def commitLoop_pairLoop initState_def split: Flow.splits)
qed

lemma processedPairs_all:
  "loopFlow s repository pushEvent ps = Continue \<Longrightarrow> processedPairs s repository pushEvent ps = ps"
proof -
  assume a: "loopFlow s repository pushEvent ps = Continue"
  have "dropWhile (\<lambda>p. fileFlow s repository pushEvent p = Continue) ps = []"
  proof (cases "dropWhile (\<lambda>p. fileFlow s repository pushEvent p = Continue) ps")
    case Nil
    then show ?thesis .
  next
    case (Cons p rest)
    with a have "fileFlow s repository pushEvent p = Continue" by (simp add: loopFlow_def)
    moreover from Cons have "fileFlow s repository pushEvent p \<noteq> Continue"
      using hd_dropWhile [of "\<lambda>p. fileFlow s repository pushEvent p = Continue" ps] by simp
    ultimately show ?thesis by simp
  qed
  then have d: "dropWhile (\<lambda>p. fileFlow s repository pushEvent p = Continue) ps = []" .
  then have "takeWhile (\<lambda>p. fileFlow s repository pushEvent p = Continue) ps = ps"
    by (metis append_Nil2 takeWhile_dropWhile_id)
  with d show ?thesis
    by (simp only: processedPairs_def take.simps append_Nil2)
qed

lemma entered_fields [simp]:
  "createdMessageList (entered s commit added st) = createdMessageList st"
  "issues (entered s commit added st) = issues st"
  "submitted (entered s commit added st) = submitted st"
  "visited (entered s commit added st) = visited st @ [(commit, added)]"
  by (simp_all add: entered_def l_Warn_def Let_def split: sum.splits)

lemma fileIssueCreate_stages:
  "PipelineCreate_StageList (IssueCreate_Pipeline (fileIssueCreate s repository pushEvent commit added mi b targets))
     = map (composeStage mi b (fileVCSPushEvent s repository pushEvent commit added) (loadedPolicies s targets))
         targets"
  by (simp add: fileIssueCreate_def composeIssue_def)

lemma submitted_resolved:
  assumes "resolveTargets s repository commit added = Some (mi, b, targets)"
  shows "\<exists>fl st'. processFile s repository pushEvent commit added st = (fl, st') \<and>
     submitted st' = submitted st @ [fileIssueCreate s repository pushEvent commit added mi b targets]"
  using processFile_step [of s repository pushEvent commit added st] assms
  by (auto simp: submittedRequest_def optList_def)

lemma createdIssue_SomeD:
  assumes "createdIssue s repository pushEvent p = Some issue"
  shows "schemaTemplateCompiles s repository"
    and "\<exists>issueCreate. CreateIssue s issueCreate SYSTEM_BOT_ID = Inr issue"
  using assms resolveTargets_SomeD(2)
  by (auto simp: createdIssue_def split: option.splits sum.splits)

lemma processedPairs_stop:
  assumes "p \<in> set (processedPairs s repository pushEvent ps)"
    and "fileFlow s repository pushEvent p \<noteq> Continue"
  shows "\<exists>before after. ps = before @ p # after \<and>
     processedPairs s repository pushEvent ps = before @ [p] \<and>
     loopFlow s repository pushEvent ps = fileFlow s repository pushEvent p"
proof -
  define P where "P = (\<lambda>p. fileFlow s repository pushEvent p = Continue)"
  from assms(2) have "p \<notin> set (takeWhile P ps)"
    by (auto simp: P_def dest: set_takeWhileD)
  with assms(1) have "p \<in> set (take 1 (dropWhile P ps))"
    by (simp add: processedPairs_def P_def)
  then obtain after where d: "dropWhile P ps = p # after"
    by (cases "dropWhile P ps") auto
  have "ps = takeWhile P ps @ p # after"
    using takeWhile_dropWhile_id [of P ps] d by simp
  moreover have "processedPairs s repository pushEvent ps = takeWhile P ps @ [p]"
    using d by (simp add: processedPairs_def P_def)
  moreover have "loopFlow s repository pushEvent ps = fileFlow s repository pushEvent p"
    using d by (simp add: loopFlow_def P_def)
  ultimately show ?thesis by blast
qed

lemma loopFlow_Exit:
  assumes "loopFlow s repository pushEvent ps = Exit r"
  shows "\<exists>before p after. ps = before @ p # after \<and>
     processedPairs s repository pushEvent ps = before @ [p] \<and>
     fileFlow s repository pushEvent p = Exit r"
proof -
  define P where "P = (\<lambda>p. fileFlow s repository pushEvent p = Continue)"
  from assms obtain p after where d: "dropWhile P ps = p # after"
    and f: "fileFlow s repository pushEvent p = Exit r"
    by (auto simp: loopFlow_def P_def split: list.splits)
  have "ps = takeWhile P ps @ p # after"
    using takeWhile_dropWhile_id [of P ps] d by simp
  moreover have "processedPairs s repository pushEvent ps = takeWhile P ps @ [p]"
    using d by (simp add: processedPairs_def P_def)
  ultimately show ?thesis using f by blast
qed

lemma map_filter_snoc:
  "List.map_filter f (xs @ [x]) = List.map_filter f xs @ optList (f x)"
  by (simp add: List.map_filter_def optList_def split: option.splits)

subsection \<open>Replacing the marshaller and the activity service\<close>

lemma updated_resolveTargets:
  "resolveTargets (s\<lparr>json_Marshal := marshal', CreateActivity := create'\<rparr>) repository commit added
     = resolveTargets s repository commit added"
  by (simp add: resolveTargets_def schemaTemplateCompiles_def matchesSchemaTemplate_def
      parsedMigration_def fetchedContent_def candidates_def filterByEnvironment_def rawFilePath_def
      cong: sum.case_cong if_cong)

lemma updated_fileVCSPushEvent:
  "fileVCSPushEvent (s\<lparr>json_Marshal := marshal', CreateActivity := create'\<rparr>) repository pushEvent commit added
     = fileVCSPushEvent s repository pushEvent commit added"
  by (simp add: fileVCSPushEvent_def)

lemma updated_fileIssueCreate:
  "fileIssueCreate (s\<lparr>json_Marshal := marshal', CreateActivity := create'\<rparr>) repository pushEvent commit added mi b targets
     = fileIssueCreate s repository pushEvent commit added mi b targets"
  by (simp add: fileIssueCreate_def updated_fileVCSPushEvent loadedPolicies_def cong: if_cong)

lemma updated_createdIssue:
  "createdIssue (s\<lparr>json_Marshal := marshal', CreateActivity := create'\<rparr>) repository pushEvent p
     = createdIssue s repository pushEvent p"
  by (simp add: createdIssue_def updated_resolveTargets updated_fileIssueCreate
      cong: option.case_cong)

lemma updated_createdLine:
  "createdLine (s\<lparr>json_Marshal := marshal', CreateActivity := create'\<rparr>) repository pushEvent p
     = createdLine s repository pushEvent p"
  by (simp add: createdLine_def updated_createdIssue createdMessage_def cong: option.case_cong)

lemma updated_submittedRequest:
  "submittedRequest (s\<lparr>json_Marshal := marshal', CreateActivity := create'\<rparr>) repository pushEvent p
     = submittedRequest s repository pushEvent p"
  by (simp add: submittedRequest_def updated_resolveTargets updated_fileIssueCreate
      cong: option.case_cong)

lemma updated_validate:
  "validate (s\<lparr>json_Marshal := marshal', CreateActivity := create'\<rparr>) c = validate s c"
  by (simp add: validate_def cong: sum.case_cong if_cong)

lemma updated_fileFlow:
  assumes "successRecordingAgrees s marshal' create'"
  shows "fileFlow (s\<lparr>json_Marshal := marshal', CreateActivity := create'\<rparr>) repository pushEvent p
     = fileFlow s repository pushEvent p"
proof (cases "createdIssue s repository pushEvent p")
  case None
  then show ?thesis
    by (simp add: fileFlow_def updated_createdIssue schemaTemplateCompiles_def)
next
  case (Some issue)
  from createdIssue_SomeD(2) [OF Some] assms
  have m: "marshal' (createdPayload v issue) = json_Marshal s (createdPayload v issue)" for v
    unfolding successRecordingAgrees_def by blast
  have a: "create' (createdActivity s repository issue bytes) = CreateActivity s (createdActivity s repository issue bytes)"
    for bytes
    using assms unfolding successRecordingAgrees_def by (simp add: createdActivity_def)
  have c: "createdActivity (s\<lparr>json_Marshal := marshal', CreateActivity := create'\<rparr>) repository issue bytes
      = createdActivity s repository issue bytes" for bytes
    by (simp add: createdActivity_def)
  show ?thesis
    using Some
    by (simp add: fileFlow_def updated_createdIssue updated_fileVCSPushEvent schemaTemplateCompiles_def
        recordingFails_def recordingError_def m a c cong: sum.case_cong if_cong)
qed

lemma pair_with_snd: "fst x = a \<Longrightarrow> x = (a, snd x)"
  by (cases x) simp

section \<open>The claims\<close>

subsection \<open>C1: created issues and the response body\<close>

text \<open>
  Claim C1, as amended. For every request that the handler answers with status 200 (the
  push event passed request-level validation and no later step aborted the loops), the
  issues created are, in file-processing order, exactly one for each (commit, added file)
  pair that resolves to at least one non-ambiguous database and whose issue-creation call
  succeeds; the response body is the newline-joined list of their lines
  \<^verbatim>\<open>Created issue "<name>" on adding <path>\<close> in the same order, and it is empty when no
  issue was created.
\<close>

theorem created_issues_and_response:
  assumes "handler s c = (StringResponse StatusOK body, st)"
  shows "\<exists>pushEvent repository. validate s c = Inr (pushEvent, repository) \<and>
     issues st = List.map_filter (createdIssue s repository pushEvent) (filePairs (PushEvent_CommitList pushEvent)) \<and>
     body = Join (List.map_filter (createdLine s repository pushEvent) (filePairs (PushEvent_CommitList pushEvent)))
              [CHR 0x0A] \<and>
     (issues st = [] \<longrightarrow> body = [])"
proof (cases "validate s c")
  case (Inl r)
  with validate_Inl [OF Inl] assms show ?thesis by (auto simp: handler_def)
next
  case (Inr v)
  obtain pushEvent repository where v: "validate s c = Inr (pushEvent, repository)"
    using Inr by (cases v) auto
  from handler_validated [OF v] assms obtain st1 where
    h: "(StringResponse StatusOK body, st) =
       (case loopFlow s repository pushEvent (filePairs (PushEvent_CommitList pushEvent)) of
          Continue \<Rightarrow> StringResponse StatusOK (Join (createdMessageList st1) [CHR 0x0A])
        | Exit r \<Rightarrow> r, st1)"
    and i: "issues st1 = List.map_filter (createdIssue s repository pushEvent)
       (processedPairs s repository pushEvent (filePairs (PushEvent_CommitList pushEvent)))"
    and m: "createdMessageList st1 = List.map_filter (createdLine s repository pushEvent)
       (processedPairs s repository pushEvent (filePairs (PushEvent_CommitList pushEvent)))"
    by auto
  from h loopFlow_cases [of s repository pushEvent "filePairs (PushEvent_CommitList pushEvent)"]
  have f: "loopFlow s repository pushEvent (filePairs (PushEvent_CommitList pushEvent)) = Continue"
    by auto
  have e: "List.map_filter (createdLine s repository pushEvent) ps = []"
    if "List.map_filter (createdIssue s repository pushEvent) ps = []" for ps
    using that by (induction ps) (auto simp: List.map_filter_simps createdLine_def split: option.splits)
  from h f i m e v show ?thesis by (auto simp: processedPairs_all)
qed

text \<open>
  A push event adding three files: one that does not parse and two migrations. The
  response has the two lines of the migrations.
\<close>

theorem created_issues_and_response_witness:
  "handler (exServer [exNotesFile, exProdFile, exAllFile] [exProd 11]) exRequest =
     (StringResponse StatusOK (exLine exProdFile @ CHR 0x0A # exLine exAllFile),
      snd (handler (exServer [exNotesFile, exProdFile, exAllFile] [exProd 11]) exRequest)) \<and>
   (\<exists>pushEvent repository.
      validate (exServer [exNotesFile, exProdFile, exAllFile] [exProd 11]) exRequest = Inr (pushEvent, repository) \<and>
      issues (snd (handler (exServer [exNotesFile, exProdFile, exAllFile] [exProd 11]) exRequest)) =
        List.map_filter (createdIssue (exServer [exNotesFile, exProdFile, exAllFile] [exProd 11]) repository pushEvent)
          (filePairs (PushEvent_CommitList pushEvent)) \<and>
      exLine exProdFile @ CHR 0x0A # exLine exAllFile =
        Join (List.map_filter (createdLine (exServer [exNotesFile, exProdFile, exAllFile] [exProd 11]) repository pushEvent)
               (filePairs (PushEvent_CommitList pushEvent))) [CHR 0x0A] \<and>
      (issues (snd (handler (exServer [exNotesFile, exProdFile, exAllFile] [exProd 11]) exRequest)) = [] \<longrightarrow>
         exLine exProdFile @ CHR 0x0A # exLine exAllFile = []))"
proof -
  have "fst (handler (exServer [exNotesFile, exProdFile, exAllFile] [exProd 11]) exRequest) =
      StringResponse StatusOK (exLine exProdFile @ CHR 0x0A # exLine exAllFile)"
    by (simp add: model_defs ex_defs)
  then have h: "handler (exServer [exNotesFile, exProdFile, exAllFile] [exProd 11]) exRequest =
     (StringResponse StatusOK (exLine exProdFile @ CHR 0x0A # exLine exAllFile),
      snd (handler (exServer [exNotesFile, exProdFile, exAllFile] [exProd 11]) exRequest))"
    by (rule pair_with_snd)
  from created_issues_and_response [OF h] h show ?thesis by simp
qed

text \<open>
  C1 as stated fails: a valid push event whose only added file resolves to one database,
  on a server whose issue creation fails, is answered with status 200 and an empty body,
  and no issue exists for the pair.
\<close>

theorem unissued_resolved_file_counterexample:
  "resolveTargets (issueCreationFails (exServer [exProdFile] [exProd 11])) exRepository
     (exCommit [exProdFile]) exProdFile = Some (exProdMigration, exStatement, [exProd 11]) \<and>
   fst (handler (issueCreationFails (exServer [exProdFile] [exProd 11])) exRequest) = StringResponse StatusOK [] \<and>
   issues (snd (handler (issueCreationFails (exServer [exProdFile] [exProd 11])) exRequest)) = []"
  by (simp add: model_defs spec_defs ex_defs)

subsection \<open>C2: an ambiguous file is skipped\<close>

text \<open>
  Claim C2, as amended. If the candidate set of a parsed and fetched file has an environment
  bucket with more than one database, then the file is skipped, whatever the other buckets
  hold: processing continues, no issue request is submitted, no issue is created and nothing
  is added to the response lines. If moreover the approval-policy lookup succeeds for every
  candidate's environment, no activity of any level is recorded for the file.
\<close>

theorem ambiguous_file_skipped:
  assumes "prefix (Repository_BaseDirectory repository) added"
    and "schemaTemplateCompiles s repository"
    and "\<not> matchesSchemaTemplate s repository added"
    and "parsedMigration s repository added = Inr mi"
    and "fetchedContent s repository commit added = Inr b"
    and "candidates s repository mi = Inr targets"
    and "1 < length (bucket environmentId targets)"
  shows "\<exists>st'. processFile s repository pushEvent commit added st = (Continue, st') \<and>
     issues st' = issues st \<and> submitted st' = submitted st \<and>
     createdMessageList st' = createdMessageList st \<and>
     (policiesLoaded s targets \<longrightarrow> activities st' = activities st)"
proof -
  from assms(7) have "bucket environmentId targets \<noteq> []" by auto
  then obtain database where "database \<in> set targets" "environmentIdOf database = environmentId"
    by (auto simp: bucket_def filter_empty_conv)
  with assms(7) have amb: "ambiguous targets" by (auto simp: ambiguous_def)
  from assms(7) have ne: "targets \<noteq> []" by (auto simp: bucket_def)
  from assms(6) obtain databaseList where
    f: "ComposeDatabaseListByFind s (Repository_ProjectId repository) (MigrationInfo_Database mi) = Inr databaseList"
    and ft: "filterByEnvironment s mi databaseList = targets"
    by (auto simp: candidates_def split: sum.splits)
  from processMigration_found [OF f ft ne, where st = "entered s commit added st" and commit = commit
      and added = added and vcsPushEvent = "fileVCSPushEvent s repository pushEvent commit added" and b = b] amb
  show ?thesis using assms(1-5) by (auto simp: processFile_inside core_def)
qed

text \<open>
  Two databases in environment 1 and one in environment 2, whose bucket alone would resolve.
\<close>

theorem ambiguous_file_skipped_witness:
  "prefix (Repository_BaseDirectory exRepository) exAllFile \<and>
   schemaTemplateCompiles (exServer [exAllFile] [exProd 11, exDev 21, exProd 12]) exRepository \<and>
   \<not> matchesSchemaTemplate (exServer [exAllFile] [exProd 11, exDev 21, exProd 12]) exRepository exAllFile \<and>
   parsedMigration (exServer [exAllFile] [exProd 11, exDev 21, exProd 12]) exRepository exAllFile
     = Inr exAllMigration \<and>
   fetchedContent (exServer [exAllFile] [exProd 11, exDev 21, exProd 12]) exRepository (exCommit [exAllFile]) exAllFile
     = Inr exStatement \<and>
   candidates (exServer [exAllFile] [exProd 11, exDev 21, exProd 12]) exRepository exAllMigration
     = Inr [exProd 11, exDev 21, exProd 12] \<and>
   1 < length (bucket 1 [exProd 11, exDev 21, exProd 12]) \<and>
   length (bucket 2 [exProd 11, exDev 21, exProd 12]) = 1 \<and>
   policiesLoaded (exServer [exAllFile] [exProd 11, exDev 21, exProd 12]) [exProd 11, exDev 21, exProd 12] \<and>
   (\<exists>st'. processFile (exServer [exAllFile] [exProd 11, exDev 21, exProd 12]) exRepository
            (exPushEvent [exAllFile]) (exCommit [exAllFile]) exAllFile initState = (Continue, st') \<and>
      issues st' = [] \<and> submitted st' = [] \<and> createdMessageList st' = [] \<and> activities st' = [])"
proof -
  have h: "prefix (Repository_BaseDirectory exRepository) exAllFile"
    "schemaTemplateCompiles (exServer [exAllFile] [exProd 11, exDev 21, exProd 12]) exRepository"
    "\<not> matchesSchemaTemplate (exServer [exAllFile] [exProd 11, exDev 21, exProd 12]) exRepository exAllFile"
    "parsedMigration (exServer [exAllFile] [exProd 11, exDev 21, exProd 12]) exRepository exAllFile
       = Inr exAllMigration"
    "fetchedContent (exServer [exAllFile] [exProd 11, exDev 21, exProd 12]) exRepository (exCommit [exAllFile]) exAllFile
       = Inr exStatement"
    "candidates (exServer [exAllFile] [exProd 11, exDev 21, exProd 12]) exRepository exAllMigration
       = Inr [exProd 11, exDev 21, exProd 12]"
    "1 < length (bucket 1 [exProd 11, exDev 21, exProd 12])"
    by (simp_all add: model_defs spec_defs ex_defs)
  have e: "length (bucket 2 [exProd 11, exDev 21, exProd 12]) = 1"
    "policiesLoaded (exServer [exAllFile] [exProd 11, exDev 21, exProd 12]) [exProd 11, exDev 21, exProd 12]"
    by (simp_all add: model_defs spec_defs ex_defs)
  from ambiguous_file_skipped [OF h, of "exPushEvent [exAllFile]" initState] h e show ?thesis
    by (simp add: initState_def)
qed

text \<open>
  C2 as stated fails: the policy is looked up while the buckets are built, before the
  ambiguity check. With two databases in environment 1 and a failing policy lookup, the
  ambiguous file leaves WARN activities behind.
\<close>

theorem ambiguous_file_policy_warning_counterexample:
  "candidates (policyLookupFails (exServer [exProdFile] [exProd 11, exProd 12])) exRepository exProdMigration
     = Inr [exProd 11, exProd 12] \<and>
   1 < length (bucket 1 [exProd 11, exProd 12]) \<and>
   fst (handler (policyLookupFails (exServer [exProdFile] [exProd 11, exProd 12])) exRequest)
     = StringResponse StatusOK [] \<and>
   map ActivityCreate_Level
     (activities (snd (handler (policyLookupFails (exServer [exProdFile] [exProd 11, exProd 12])) exRequest)))
     = [ACTIVITY_WARN, ACTIVITY_WARN]"
  by (simp add: model_defs spec_defs ex_defs)

subsection \<open>C3: a failed policy lookup\<close>

text \<open>
  Claim C3 says that a failed approval-policy lookup makes the whole file a recorded ignore:
  a WARN activity and no issue. The handler records the WARN activity, but the
  \<^verbatim>\<open>continue\<close> after it only leaves the loop over the file's databases: at the input below
  the file's issue is created all the same, with an approval-gated task, and the response
  reports it.
\<close>

theorem policy_failure_still_creates_issue:
  "isl (GetPipelineApprovalPolicy (policyLookupFails (exServer [exProdFile] [exProd 11])) 1) \<and>
   resolveTargets (policyLookupFails (exServer [exProdFile] [exProd 11])) exRepository
     (exCommit [exProdFile]) exProdFile = Some (exProdMigration, exStatement, [exProd 11]) \<and>
   fst (handler (policyLookupFails (exServer [exProdFile] [exProd 11])) exRequest)
     = StringResponse StatusOK (exLine exProdFile) \<and>
   issues (snd (handler (policyLookupFails (exServer [exProdFile] [exProd 11])) exRequest)) = [exIssue] \<and>
   map ActivityCreate_Level
     (activities (snd (handler (policyLookupFails (exServer [exProdFile] [exProd 11])) exRequest)))
     = [ACTIVITY_WARN, ACTIVITY_INFO] \<and>
   map (TaskCreate_Status \<circ> hd \<circ> StageCreate_TaskList)
     (PipelineCreate_StageList (IssueCreate_Pipeline
        (hd (submitted (snd (handler (policyLookupFails (exServer [exProdFile] [exProd 11])) exRequest))))))
     = [TaskPendingApproval]"
  by (simp add: model_defs spec_defs ex_defs)

subsection \<open>C4: the submitted issue-creation request\<close>

text \<open>
  Claim C4. For every file whose target set resolves non-ambiguously, one issue-creation
  request is submitted. It has exactly one stage per resolved database, in order; each stage
  is named after that database's environment and has exactly one task, for that database,
  whose name is the migration description and whose statement is the file content fetched
  from the VCS provider. The issue's name is the commit title, its description the commit
  message and its assignee the system bot.
\<close>

theorem issue_request_shape:
  assumes "resolveTargets s repository commit added = Some (mi, b, targets)"
  shows "\<exists>fl st' issueCreate. processFile s repository pushEvent commit added st = (fl, st') \<and>
     submitted st' = submitted st @ [issueCreate] \<and>
     fetchedContent s repository commit added = Inr b \<and>
     list_all2
       (\<lambda>stage database.
          StageCreate_Name stage = environmentNameOf database \<and>
          (\<exists>task. StageCreate_TaskList stage = [task] \<and>
                  TaskCreate_DatabaseId task = Database_ID database \<and>
                  TaskCreate_Name task = MigrationInfo_Description mi \<and>
                  TaskCreate_Statement task = b))
       (PipelineCreate_StageList (IssueCreate_Pipeline issueCreate)) targets \<and>
     IssueCreate_Name issueCreate = Commit_Title commit \<and>
     IssueCreate_Description issueCreate = Commit_Message commit \<and>
     IssueCreate_AssigneeId issueCreate = SYSTEM_BOT_ID"
proof -
  from submitted_resolved [OF assms] obtain fl st' where
    p: "processFile s repository pushEvent commit added st = (fl, st')"
    and u: "submitted st' = submitted st @ [fileIssueCreate s repository pushEvent commit added mi b targets]"
    by blast
  have "list_all2
       (\<lambda>stage database.
          StageCreate_Name stage = environmentNameOf database \<and>
          (\<exists>task. StageCreate_TaskList stage = [task] \<and>
                  TaskCreate_DatabaseId task = Database_ID database \<and>
                  TaskCreate_Name task = MigrationInfo_Description mi \<and>
                  TaskCreate_Statement task = b))
       (PipelineCreate_StageList (IssueCreate_Pipeline
          (fileIssueCreate s repository pushEvent commit added mi b targets))) targets"
    by (simp add: fileIssueCreate_stages list_all2_map1 list_all2_same composeStage_def Let_def)
  moreover have "IssueCreate_Name (fileIssueCreate s repository pushEvent commit added mi b targets) = Commit_Title commit"
    "IssueCreate_Description (fileIssueCreate s repository pushEvent commit added mi b targets) = Commit_Message commit"
    "IssueCreate_AssigneeId (fileIssueCreate s repository pushEvent commit added mi b targets) = SYSTEM_BOT_ID"
    by (simp_all add: fileIssueCreate_def composeIssue_def)
  ultimately show ?thesis
    using p u resolveTargets_SomeD(5) [OF assms] by blast
qed

text \<open>A migration for all environments, with one database in \<open>prod\<close> and one in \<open>dev\<close>.\<close>

theorem issue_request_shape_witness:
  "resolveTargets (exServer [exAllFile] [exProd 11, exDev 21]) exRepository (exCommit [exAllFile]) exAllFile
     = Some (exAllMigration, exStatement, [exProd 11, exDev 21]) \<and>
   (\<exists>fl st' issueCreate.
      processFile (exServer [exAllFile] [exProd 11, exDev 21]) exRepository (exPushEvent [exAllFile])
        (exCommit [exAllFile]) exAllFile initState = (fl, st') \<and>
      submitted st' = [issueCreate] \<and>
      fetchedContent (exServer [exAllFile] [exProd 11, exDev 21]) exRepository (exCommit [exAllFile]) exAllFile
        = Inr exStatement \<and>
      map StageCreate_Name (PipelineCreate_StageList (IssueCreate_Pipeline issueCreate)) = [''prod'', ''dev''] \<and>
      list_all2
        (\<lambda>stage database.
           StageCreate_Name stage = environmentNameOf database \<and>
           (\<exists>task. StageCreate_TaskList stage = [task] \<and>
                   TaskCreate_DatabaseId task = Database_ID database \<and>
                   TaskCreate_Name task = ''v4'' \<and>
                   TaskCreate_Statement task = exStatement))
        (PipelineCreate_StageList (IssueCreate_Pipeline issueCreate)) [exProd 11, exDev 21] \<and>
      IssueCreate_Name issueCreate = ''Add column'' \<and>
      IssueCreate_Description issueCreate = ''Add a column to orders'' \<and>
      IssueCreate_AssigneeId issueCreate = SYSTEM_BOT_ID)"
proof -
  have h: "resolveTargets (exServer [exAllFile] [exProd 11, exDev 21]) exRepository (exCommit [exAllFile]) exAllFile
     = Some (exAllMigration, exStatement, [exProd 11, exDev 21])"
    by (simp add: model_defs spec_defs ex_defs)
  have n: "map StageCreate_Name xs = [''prod'', ''dev'']"
    if "list_all2 (\<lambda>stage database. StageCreate_Name stage = environmentNameOf database \<and> Q stage database)
          xs [exProd 11, exDev 21]" for xs Q
    using that by (auto simp: list_all2_Cons2 environmentNameOf_def exProd_def exDev_def)
  from issue_request_shape [OF h, of "exPushEvent [exAllFile]" initState]
  obtain fl st' issueCreate where
    "processFile (exServer [exAllFile] [exProd 11, exDev 21]) exRepository (exPushEvent [exAllFile])
        (exCommit [exAllFile]) exAllFile initState = (fl, st')"
    "submitted st' = submitted initState @ [issueCreate]"
    "fetchedContent (exServer [exAllFile] [exProd 11, exDev 21]) exRepository (exCommit [exAllFile]) exAllFile
        = Inr exStatement"
    "list_all2
        (\<lambda>stage database.
           StageCreate_Name stage = environmentNameOf database \<and>
           (\<exists>task. StageCreate_TaskList stage = [task] \<and>
                   TaskCreate_DatabaseId task = Database_ID database \<and>
                   TaskCreate_Name task = MigrationInfo_Description exAllMigration \<and>
                   TaskCreate_Statement task = exStatement))
        (PipelineCreate_StageList (IssueCreate_Pipeline issueCreate)) [exProd 11, exDev 21]"
    "IssueCreate_Name issueCreate = Commit_Title (exCommit [exAllFile])"
    "IssueCreate_Description issueCreate = Commit_Message (exCommit [exAllFile])"
    "IssueCreate_AssigneeId issueCreate = SYSTEM_BOT_ID"
    by blast
  with h n [OF this(4)] show ?thesis
    by (simp add: initState_def exAllMigration_def exCommit_def)
qed

subsection \<open>C5: the initial task status\<close>

text \<open>
  Claim C5. For every resolved database (a composed record) of a file that resolves, the
  task of its stage starts as pending if and only if the approval policy looked up for the
  database's environment has the value manual-never; for any other looked-up value it starts
  as pending approval.
\<close>

theorem task_status_follows_policy:
  assumes "resolveTargets s repository commit added = Some (mi, b, targets)"
    and "\<forall>database \<in> set targets. composedRecord database"
  shows "\<exists>fl st' issueCreate. processFile s repository pushEvent commit added st = (fl, st') \<and>
     submitted st' = submitted st @ [issueCreate] \<and>
     list_all2
       (\<lambda>stage database.
          \<exists>task. StageCreate_TaskList stage = [task] \<and>
            (TaskCreate_Status task = TaskPending \<longleftrightarrow>
               lookedUpApproval s database = Some PipelineApprovalValueManualNever) \<and>
            (\<forall>v. lookedUpApproval s database = Some v \<and> v \<noteq> PipelineApprovalValueManualNever \<longrightarrow>
               TaskCreate_Status task = TaskPendingApproval))
       (PipelineCreate_StageList (IssueCreate_Pipeline issueCreate)) targets"
proof -
  from submitted_resolved [OF assms(1)] obtain fl st' where
    p: "processFile s repository pushEvent commit added st = (fl, st')"
    and u: "submitted st' = submitted st @ [fileIssueCreate s repository pushEvent commit added mi b targets]"
    by blast
  have a: "approvalOf (loadedPolicies s targets)
             (Environment_ID (Instance_Environment (Database_Instance database)))
           = (case lookedUpApproval s database of None \<Rightarrow> [] | Some v \<Rightarrow> v)"
    if "database \<in> set targets" for database
    using that assms(2)
    by (auto simp: approvalOf_def loadedPolicies_def lookedUpApproval_def composedRecord_def
        environmentIdOf_def split: sum.splits)
  have "list_all2
       (\<lambda>stage database.
          \<exists>task. StageCreate_TaskList stage = [task] \<and>
            (TaskCreate_Status task = TaskPending \<longleftrightarrow>
               lookedUpApproval s database = Some PipelineApprovalValueManualNever) \<and>
            (\<forall>v. lookedUpApproval s database = Some v \<and> v \<noteq> PipelineApprovalValueManualNever \<longrightarrow>
               TaskCreate_Status task = TaskPendingApproval))
       (PipelineCreate_StageList (IssueCreate_Pipeline
          (fileIssueCreate s repository pushEvent commit added mi b targets))) targets"
    by (auto simp: fileIssueCreate_stages list_all2_map1 list_all2_same composeStage_def Let_def a
        PipelineApprovalValueManualNever_def split: option.splits)
  with p u show ?thesis by blast
qed

text \<open>
  Environment 1 needs approval and environment 2 does not: the task for \<open>prod\<close> starts
  pending approval, the task for \<open>dev\<close> starts pending.
\<close>

theorem task_status_follows_policy_witness:
  "resolveTargets (exServer [exAllFile] [exProd 11, exDev 21]) exRepository (exCommit [exAllFile]) exAllFile
     = Some (exAllMigration, exStatement, [exProd 11, exDev 21]) \<and>
   composedRecord (exProd 11) \<and> composedRecord (exDev 21) \<and>
   lookedUpApproval (exServer [exAllFile] [exProd 11, exDev 21]) (exProd 11) = Some ''MANUAL_APPROVAL_ALWAYS'' \<and>
   lookedUpApproval (exServer [exAllFile] [exProd 11, exDev 21]) (exDev 21) = Some PipelineApprovalValueManualNever \<and>
   (\<exists>fl st' issueCreate.
      processFile (exServer [exAllFile] [exProd 11, exDev 21]) exRepository (exPushEvent [exAllFile])
        (exCommit [exAllFile]) exAllFile initState = (fl, st') \<and>
      submitted st' = [issueCreate] \<and>
      (\<exists>prodTask devTask.
         map StageCreate_TaskList (PipelineCreate_StageList (IssueCreate_Pipeline issueCreate))
           = [[prodTask], [devTask]] \<and>
         TaskCreate_Status prodTask = TaskPendingApproval \<and> TaskCreate_Status devTask = TaskPending))"
proof -
  have h: "resolveTargets (exServer [exAllFile] [exProd 11, exDev 21]) exRepository (exCommit [exAllFile]) exAllFile
     = Some (exAllMigration, exStatement, [exProd 11, exDev 21])"
    by (simp add: model_defs spec_defs ex_defs)
  have c: "composedRecord (exProd 11)" "composedRecord (exDev 21)"
    by (simp_all add: composedRecord_def exProd_def exDev_def)
  then have c': "\<forall>database \<in> set [exProd 11, exDev 21]. composedRecord database" by simp
  have l: "lookedUpApproval (exServer [exAllFile] [exProd 11, exDev 21]) (exProd 11) = Some ''MANUAL_APPROVAL_ALWAYS''"
    "lookedUpApproval (exServer [exAllFile] [exProd 11, exDev 21]) (exDev 21) = Some PipelineApprovalValueManualNever"
    by (simp_all add: lookedUpApproval_def model_defs ex_defs)
  from task_status_follows_policy [OF h c', of "exPushEvent [exAllFile]" initState]
  obtain fl st' issueCreate where p:
    "processFile (exServer [exAllFile] [exProd 11, exDev 21]) exRepository (exPushEvent [exAllFile])
        (exCommit [exAllFile]) exAllFile initState = (fl, st')"
    "submitted st' = submitted initState @ [issueCreate]"
    and a: "list_all2
       (\<lambda>stage database.
          \<exists>task. StageCreate_TaskList stage = [task] \<and>
            (TaskCreate_Status task = TaskPending \<longleftrightarrow>
               lookedUpApproval (exServer [exAllFile] [exProd 11, exDev 21]) database
                 = Some PipelineApprovalValueManualNever) \<and>
            (\<forall>v. lookedUpApproval (exServer [exAllFile] [exProd 11, exDev 21]) database = Some v \<and>
                 v \<noteq> PipelineApprovalValueManualNever \<longrightarrow>
               TaskCreate_Status task = TaskPendingApproval))
       (PipelineCreate_StageList (IssueCreate_Pipeline issueCreate)) [exProd 11, exDev 21]"
    by blast
  from a l have "\<exists>prodTask devTask.
         map StageCreate_TaskList (PipelineCreate_StageList (IssueCreate_Pipeline issueCreate))
           = [[prodTask], [devTask]] \<and>
         TaskCreate_Status prodTask = TaskPendingApproval \<and> TaskCreate_Status devTask = TaskPending"
    by (auto simp: list_all2_Cons2 PipelineApprovalValueManualNever_def)
  with h c l p show ?thesis
    by (simp add: initState_def)
qed

subsection \<open>C6: the classification rules\<close>

text \<open>
  Claim C6, as amended. A file whose path does not begin with the base directory, and a file
  that matches the expression compiled from the schema path template, is skipped: processing
  continues, no activity is recorded, no issue request is submitted, no issue is created and
  nothing is added to the response lines. A file under the base directory that is no schema
  artifact and fails to parse against the file path template is skipped in the same way,
  and one WARN activity of the project is recorded for it whenever the activity's payload can
  be marshalled and the activity-creation call succeeds.
\<close>

theorem file_classification:
  "(\<not> prefix (Repository_BaseDirectory repository) added \<or> matchesSchemaTemplate s repository added \<longrightarrow>
      (\<exists>st'. processFile s repository pushEvent commit added st = (Continue, st') \<and>
         activities st' = activities st \<and> issues st' = issues st \<and> submitted st' = submitted st \<and>
         createdMessageList st' = createdMessageList st)) \<and>
   (prefix (Repository_BaseDirectory repository) added \<and> schemaTemplateCompiles s repository \<and>
    \<not> matchesSchemaTemplate s repository added \<and> parsedMigration s repository added = Inl err \<longrightarrow>
      (\<exists>st'. processFile s repository pushEvent commit added st = (Continue, st') \<and>
         issues st' = issues st \<and> submitted st' = submitted st \<and>
         createdMessageList st' = createdMessageList st \<and>
         (\<forall>bytes u.
            json_Marshal s (ignoredFilePayload (fileVCSPushEvent s repository pushEvent commit added)) = Inr bytes \<and>
            CreateActivity s (ignoredFileActivity s repository added err bytes) = Inr u \<longrightarrow>
            (\<exists>a. activities st' = activities st @ [a] \<and> ActivityCreate_Level a = ACTIVITY_WARN \<and>
                 ActivityCreate_ContainerId a = Repository_ProjectId repository))))"
proof (intro conjI impI)
  assume a: "\<not> prefix (Repository_BaseDirectory repository) added \<or> matchesSchemaTemplate s repository added"
  show "\<exists>st'. processFile s repository pushEvent commit added st = (Continue, st') \<and>
         activities st' = activities st \<and> issues st' = issues st \<and> submitted st' = submitted st \<and>
         createdMessageList st' = createdMessageList st"
  proof (cases "prefix (Repository_BaseDirectory repository) added")
    case False
    then show ?thesis by (simp add: processFile_outside l_Debug_def)
  next
    case True
    with a have m: "matchesSchemaTemplate s repository added" by simp
    then have "schemaTemplateCompiles s repository"
      by (auto simp: matchesSchemaTemplate_def schemaTemplateCompiles_def split: sum.splits)
    with True m have "processFile s repository pushEvent commit added st = (Continue, entered s commit added st)"
      by (simp add: processFile_inside)
    moreover have "core (entered s commit added st)
       = (createdMessageList st, issues st, submitted st, visited st @ [(commit, added)])"
      by simp
    ultimately show ?thesis by (simp add: core_def)
  qed
next
  assume a: "prefix (Repository_BaseDirectory repository) added \<and> schemaTemplateCompiles s repository \<and>
    \<not> matchesSchemaTemplate s repository added \<and> parsedMigration s repository added = Inl err"
  define st1 where "st1 = entered s commit added st"
  define st' where "st' = createIgnoredFileActivity s repository added
                (fileVCSPushEvent s repository pushEvent commit added) err st1"
  from a have p: "processFile s repository pushEvent commit added st = (Continue, st')"
    by (simp add: processFile_inside st'_def st1_def)
  have c: "core st' = (createdMessageList st, issues st, submitted st, visited st @ [(commit, added)])"
    by (simp add: st'_def st1_def)
  have "\<exists>a. activities st' = activities st @ [a] \<and> ActivityCreate_Level a = ACTIVITY_WARN \<and>
                 ActivityCreate_ContainerId a = Repository_ProjectId repository"
    if "json_Marshal s (ignoredFilePayload (fileVCSPushEvent s repository pushEvent commit added)) = Inr bytes \<and>
            CreateActivity s (ignoredFileActivity s repository added err bytes) = Inr u" for bytes u
    using that
    by (simp add: st'_def st1_def createIgnoredFileActivity_def ignoredFileActivity_def Let_def)
  with p c show "\<exists>st'. processFile s repository pushEvent commit added st = (Continue, st') \<and>
         issues st' = issues st \<and> submitted st' = submitted st \<and>
         createdMessageList st' = createdMessageList st \<and>
         (\<forall>bytes u.
            json_Marshal s (ignoredFilePayload (fileVCSPushEvent s repository pushEvent commit added)) = Inr bytes \<and>
            CreateActivity s (ignoredFileActivity s repository added err bytes) = Inr u \<longrightarrow>
            (\<exists>a. activities st' = activities st @ [a] \<and> ActivityCreate_Level a = ACTIVITY_WARN \<and>
                 ActivityCreate_ContainerId a = Repository_ProjectId repository))"
    by (auto simp: core_def)
qed

text \<open>
  One file outside the base directory, one generated schema file of a repository with a
  schema path template, and one file under the base directory that does not parse.
\<close>

theorem file_classification_witness:
  "\<not> prefix (Repository_BaseDirectory exRepository) exOutsideFile \<and>
   (\<exists>st'. processFile (exServer [exOutsideFile] [exProd 11]) exRepository (exPushEvent [exOutsideFile])
            (exCommit [exOutsideFile]) exOutsideFile initState = (Continue, st') \<and>
      activities st' = [] \<and> issues st' = [] \<and> submitted st' = [] \<and> createdMessageList st' = []) \<and>
   prefix (Repository_BaseDirectory exSchemaRepository) exSchemaFile \<and>
   matchesSchemaTemplate exSchemaServer exSchemaRepository exSchemaFile \<and>
   (\<exists>st'. processFile exSchemaServer exSchemaRepository (exPushEvent [exSchemaFile])
            (exCommit [exSchemaFile]) exSchemaFile initState = (Continue, st') \<and>
      activities st' = [] \<and> issues st' = [] \<and> submitted st' = [] \<and> createdMessageList st' = []) \<and>
   prefix (Repository_BaseDirectory exRepository) exNotesFile \<and>
   schemaTemplateCompiles (exServer [exNotesFile] [exProd 11]) exRepository \<and>
   \<not> matchesSchemaTemplate (exServer [exNotesFile] [exProd 11]) exRepository exNotesFile \<and>
   parsedMigration (exServer [exNotesFile] [exProd 11]) exRepository exNotesFile = Inl exFailure \<and>
   json_Marshal (exServer [exNotesFile] [exProd 11])
     (ignoredFilePayload (fileVCSPushEvent (exServer [exNotesFile] [exProd 11]) exRepository
        (exPushEvent [exNotesFile]) (exCommit [exNotesFile]) exNotesFile)) = Inr ''payload'' \<and>
   CreateActivity (exServer [exNotesFile] [exProd 11])
     (ignoredFileActivity (exServer [exNotesFile] [exProd 11]) exRepository exNotesFile exFailure ''payload'')
     = Inr () \<and>
   (\<exists>st'. processFile (exServer [exNotesFile] [exProd 11]) exRepository (exPushEvent [exNotesFile])
            (exCommit [exNotesFile]) exNotesFile initState = (Continue, st') \<and>
      issues st' = [] \<and> submitted st' = [] \<and> createdMessageList st' = [] \<and>
      (\<exists>a. activities st' = [a] \<and> ActivityCreate_Level a = ACTIVITY_WARN \<and>
           ActivityCreate_ContainerId a = 7))"
proof -
  have o: "\<not> prefix (Repository_BaseDirectory exRepository) exOutsideFile"
    by (simp add: ex_defs)
  have m: "prefix (Repository_BaseDirectory exSchemaRepository) exSchemaFile"
    "matchesSchemaTemplate exSchemaServer exSchemaRepository exSchemaFile"
    by (simp_all add: model_defs spec_defs ex_defs)
  have p: "prefix (Repository_BaseDirectory exRepository) exNotesFile \<and>
    schemaTemplateCompiles (exServer [exNotesFile] [exProd 11]) exRepository \<and>
    \<not> matchesSchemaTemplate (exServer [exNotesFile] [exProd 11]) exRepository exNotesFile \<and>
    parsedMigration (exServer [exNotesFile] [exProd 11]) exRepository exNotesFile = Inl exFailure"
    by (simp add: model_defs spec_defs ex_defs)
  have e: "json_Marshal (exServer [exNotesFile] [exProd 11])
     (ignoredFilePayload (fileVCSPushEvent (exServer [exNotesFile] [exProd 11]) exRepository
        (exPushEvent [exNotesFile]) (exCommit [exNotesFile]) exNotesFile)) = Inr ''payload'' \<and>
   CreateActivity (exServer [exNotesFile] [exProd 11])
     (ignoredFileActivity (exServer [exNotesFile] [exProd 11]) exRepository exNotesFile exFailure ''payload'')
     = Inr ()"
    by (simp add: exServer_def)
  have r: "Repository_ProjectId exRepository = 7" by (simp add: exRepository_def)
  from file_classification [of exRepository exOutsideFile "exServer [exOutsideFile] [exProd 11]"
      "exPushEvent [exOutsideFile]" "exCommit [exOutsideFile]" initState] o
  have 1: "\<exists>st'. processFile (exServer [exOutsideFile] [exProd 11]) exRepository (exPushEvent [exOutsideFile])
            (exCommit [exOutsideFile]) exOutsideFile initState = (Continue, st') \<and>
      activities st' = [] \<and> issues st' = [] \<and> submitted st' = [] \<and> createdMessageList st' = []"
    by (simp add: initState_def)
  from file_classification [of exSchemaRepository exSchemaFile exSchemaServer
      "exPushEvent [exSchemaFile]" "exCommit [exSchemaFile]" initState] m
  have 2: "\<exists>st'. processFile exSchemaServer exSchemaRepository (exPushEvent [exSchemaFile])
            (exCommit [exSchemaFile]) exSchemaFile initState = (Continue, st') \<and>
      activities st' = [] \<and> issues st' = [] \<and> submitted st' = [] \<and> createdMessageList st' = []"
    by (simp add: initState_def)
  from file_classification [of exRepository exNotesFile "exServer [exNotesFile] [exProd 11]"
      "exPushEvent [exNotesFile]" "exCommit [exNotesFile]" initState exFailure] p
  obtain st' where s: "processFile (exServer [exNotesFile] [exProd 11]) exRepository (exPushEvent [exNotesFile])
            (exCommit [exNotesFile]) exNotesFile initState = (Continue, st')"
      "issues st' = issues initState" "submitted st' = submitted initState"
      "createdMessageList st' = createdMessageList initState"
    and w: "\<forall>bytes u.
            json_Marshal (exServer [exNotesFile] [exProd 11])
              (ignoredFilePayload (fileVCSPushEvent (exServer [exNotesFile] [exProd 11]) exRepository
                 (exPushEvent [exNotesFile]) (exCommit [exNotesFile]) exNotesFile)) = Inr bytes \<and>
            CreateActivity (exServer [exNotesFile] [exProd 11])
              (ignoredFileActivity (exServer [exNotesFile] [exProd 11]) exRepository exNotesFile exFailure bytes) = Inr u \<longrightarrow>
            (\<exists>a. activities st' = activities initState @ [a] \<and> ActivityCreate_Level a = ACTIVITY_WARN \<and>
                 ActivityCreate_ContainerId a = Repository_ProjectId exRepository)"
    by blast
  from w e r have "\<exists>a. activities st' = [a] \<and> ActivityCreate_Level a = ACTIVITY_WARN \<and>
           ActivityCreate_ContainerId a = 7"
    by (simp add: initState_def)
  with s have 3: "\<exists>st'. processFile (exServer [exNotesFile] [exProd 11]) exRepository (exPushEvent [exNotesFile])
            (exCommit [exNotesFile]) exNotesFile initState = (Continue, st') \<and>
      issues st' = [] \<and> submitted st' = [] \<and> createdMessageList st' = [] \<and>
      (\<exists>a. activities st' = [a] \<and> ActivityCreate_Level a = ACTIVITY_WARN \<and>
           ActivityCreate_ContainerId a = 7)"
    by (simp add: initState_def)
  from o m p e 1 2 3 show ?thesis by simp
qed

text \<open>
  C6 as stated fails in its third rule: when the activity-creation call fails, a file that
  does not parse leaves no activity behind (the failure is only logged).
\<close>

theorem parse_failure_unrecorded_counterexample:
  "prefix (Repository_BaseDirectory exRepository) exNotesFile \<and>
   schemaTemplateCompiles (activityCreationFails (exServer [exNotesFile] [exProd 11])) exRepository \<and>
   \<not> matchesSchemaTemplate (activityCreationFails (exServer [exNotesFile] [exProd 11])) exRepository exNotesFile \<and>
   parsedMigration (activityCreationFails (exServer [exNotesFile] [exProd 11])) exRepository exNotesFile
     = Inl exFailure \<and>
   fst (handler (activityCreationFails (exServer [exNotesFile] [exProd 11])) exRequest)
     = StringResponse StatusOK [] \<and>
   activities (snd (handler (activityCreationFails (exServer [exNotesFile] [exProd 11])) exRequest)) = []"
  by (simp add: model_defs spec_defs ex_defs)

subsection \<open>C7: request-level validation failures\<close>

text \<open>
  Claim C7. A request whose payload cannot be read or parsed, whose event kind is not
  \<^verbatim>\<open>push\<close>, whose secret token differs from the stored one or whose provider project id
  differs from the stored external id is answered with status 400; no file is processed, no
  issue request is submitted, no issue is created and no activity is recorded.
\<close>

theorem validation_failure_is_bad_request:
  assumes "malformedPayload s c \<or> wrongEventKind s c \<or> secretMismatch s c \<or> projectMismatch s c"
  shows "\<exists>msg st. handler s c = (HTTPError StatusBadRequest msg, st) \<and>
     visited st = [] \<and> issues st = [] \<and> submitted st = [] \<and> activities st = []"
  using assms
  by (auto simp: handler_def validate_def malformedPayload_def wrongEventKind_def secretMismatch_def
      projectMismatch_def receivedEvent_def storedRepository_def initState_def
      split: sum.splits option.splits)

text \<open>One request for each of the four failures.\<close>

theorem validation_failure_is_bad_request_witness:
  "malformedPayload (exServer [exProdFile] [exProd 11]) (exRequest\<lparr>Request_Body := Inr ''{''\<rparr>) \<and>
   (\<exists>msg st. handler (exServer [exProdFile] [exProd 11]) (exRequest\<lparr>Request_Body := Inr ''{''\<rparr>)
        = (HTTPError StatusBadRequest msg, st) \<and>
      visited st = [] \<and> issues st = [] \<and> submitted st = [] \<and> activities st = []) \<and>
   wrongEventKind exWrongKindServer exRequest \<and>
   (\<exists>msg st. handler exWrongKindServer exRequest = (HTTPError StatusBadRequest msg, st) \<and>
      visited st = [] \<and> issues st = [] \<and> submitted st = [] \<and> activities st = []) \<and>
   secretMismatch (exServer [exProdFile] [exProd 11]) (exRequest\<lparr>Request_XGitlabToken := ''guess''\<rparr>) \<and>
   (\<exists>msg st. handler (exServer [exProdFile] [exProd 11]) (exRequest\<lparr>Request_XGitlabToken := ''guess''\<rparr>)
        = (HTTPError StatusBadRequest msg, st) \<and>
      visited st = [] \<and> issues st = [] \<and> submitted st = [] \<and> activities st = []) \<and>
   projectMismatch exOtherProjectServer exRequest \<and>
   (\<exists>msg st. handler exOtherProjectServer exRequest = (HTTPError StatusBadRequest msg, st) \<and>
      visited st = [] \<and> issues st = [] \<and> submitted st = [] \<and> activities st = [])"
proof -
  have 1: "malformedPayload (exServer [exProdFile] [exProd 11]) (exRequest\<lparr>Request_Body := Inr ''{''\<rparr>)"
    by (simp add: validation_defs ex_defs)
  have 2: "wrongEventKind exWrongKindServer exRequest"
    by (simp add: validation_defs ex_defs ex_defs2 WebhookPush_def)
  have 3: "secretMismatch (exServer [exProdFile] [exProd 11]) (exRequest\<lparr>Request_XGitlabToken := ''guess''\<rparr>)"
    by (simp add: validation_defs ex_defs)
  have 4: "projectMismatch exOtherProjectServer exRequest"
    by (simp add: validation_defs ex_defs ex_defs2 Itoa_def itoa_nat.simps)
  from 1 2 3 4
    validation_failure_is_bad_request [of "exServer [exProdFile] [exProd 11]" "exRequest\<lparr>Request_Body := Inr ''{''\<rparr>"]
    validation_failure_is_bad_request [of exWrongKindServer exRequest]
    validation_failure_is_bad_request [of "exServer [exProdFile] [exProd 11]" "exRequest\<lparr>Request_XGitlabToken := ''guess''\<rparr>"]
    validation_failure_is_bad_request [of exOtherProjectServer exRequest]
  show ?thesis by simp
qed

subsection \<open>C8: failing to record a created issue\<close>

text \<open>
  Claim C8. Let the request pass validation. If the handler reaches a file whose issue is
  created and whose INFO activity then cannot be marshalled or persisted, the request fails
  with status 500, that file is the last one processed (the pairs after it are never
  visited) and its issue is the last one created. Conversely this is the only way the
  loops end in an HTTP error: every other failure of a file leaves the status alone.
\<close>

theorem recording_failure_aborts_request:
  assumes "validate s c = Inr (pushEvent, repository)"
    and "handler s c = (r, st)"
  shows "((commit, added) \<in> set (visited st) \<and>
          createdIssue s repository pushEvent (commit, added) = Some issue \<and>
          recordingFails s repository (fileVCSPushEvent s repository pushEvent commit added) issue \<longrightarrow>
            (\<exists>msg. r = HTTPError StatusInternalServerError msg) \<and>
            (\<exists>after. filePairs (PushEvent_CommitList pushEvent) = visited st @ after) \<and>
            last (visited st) = (commit, added) \<and> last (issues st) = issue) \<and>
         (\<forall>code msg. r = HTTPError code msg \<longrightarrow>
            code = StatusInternalServerError \<and>
            (\<exists>before commit' added' issue'.
               visited st = before @ [(commit', added')] \<and>
               createdIssue s repository pushEvent (commit', added') = Some issue' \<and>
               recordingFails s repository (fileVCSPushEvent s repository pushEvent commit' added') issue'))"
proof -
  define ps where "ps = filePairs (PushEvent_CommitList pushEvent)"
  from handler_validated [OF assms(1)] assms(2) have
    r: "r = (case loopFlow s repository pushEvent ps of
          Continue \<Rightarrow> StringResponse StatusOK (Join (createdMessageList st) [CHR 0x0A])
        | Exit r \<Rightarrow> r)"
    and i: "issues st = List.map_filter (createdIssue s repository pushEvent) (processedPairs s repository pushEvent ps)"
    and v: "visited st = processedPairs s repository pushEvent ps"
    by (auto simp: ps_def)
  have fwd: "(\<exists>msg. r = HTTPError StatusInternalServerError msg) \<and>
            (\<exists>after. ps = visited st @ after) \<and>
            last (visited st) = (commit, added) \<and> last (issues st) = issue"
    if m: "(commit, added) \<in> set (visited st)"
      and c: "createdIssue s repository pushEvent (commit, added) = Some issue"
      and f: "recordingFails s repository (fileVCSPushEvent s repository pushEvent commit added) issue"
  proof -
    have fl: "fileFlow s repository pushEvent (commit, added) =
        Exit (recordingError s repository (fileVCSPushEvent s repository pushEvent commit added) issue)"
      using c f createdIssue_SomeD(1) [OF c] by (simp add: fileFlow_def)
    from processedPairs_stop [of "(commit, added)" s repository pushEvent ps] m v fl
    obtain before after where b: "ps = before @ (commit, added) # after"
      and pp: "processedPairs s repository pushEvent ps = before @ [(commit, added)]"
      and lf: "loopFlow s repository pushEvent ps = fileFlow s repository pushEvent (commit, added)"
      by auto
    from r lf fl have "\<exists>msg. r = HTTPError StatusInternalServerError msg"
      by (auto simp: recordingError_def split: sum.splits)
    moreover from b pp v have "\<exists>after. ps = visited st @ after" by simp
    moreover from pp v have "last (visited st) = (commit, added)" by simp
    moreover from i pp c have "last (issues st) = issue"
      by (simp add: map_filter_snoc optList_def)
    ultimately show ?thesis by blast
  qed
  have bwd: "code = StatusInternalServerError \<and>
            (\<exists>before commit' added' issue'.
               visited st = before @ [(commit', added')] \<and>
               createdIssue s repository pushEvent (commit', added') = Some issue' \<and>
               recordingFails s repository (fileVCSPushEvent s repository pushEvent commit' added') issue')"
    if e: "r = HTTPError code msg" for code msg
  proof -
    from r e have lf: "loopFlow s repository pushEvent ps = Exit (HTTPError code msg)"
      by (cases "loopFlow s repository pushEvent ps") auto
    from loopFlow_Exit [OF lf] obtain before p after where
      pp: "processedPairs s repository pushEvent ps = before @ [p]"
      and fl: "fileFlow s repository pushEvent p = Exit (HTTPError code msg)"
      by blast
    from fl obtain issue' where
      "createdIssue s repository pushEvent p = Some issue'"
      "recordingFails s repository (fileVCSPushEvent s repository pushEvent (fst p) (snd p)) issue'"
      "HTTPError code msg = recordingError s repository (fileVCSPushEvent s repository pushEvent (fst p) (snd p)) issue'"
      by (auto simp: fileFlow_def split: if_splits option.splits)
    moreover from this(3) have "code = StatusInternalServerError"
      by (auto simp: recordingError_def split: sum.splits)
    ultimately show ?thesis using pp v by (cases p) auto
  qed
  from fwd bwd show ?thesis unfolding ps_def by blast
qed

text \<open>
  Two migrations on a server whose activity creation fails: the first one's issue is created,
  the request fails, and the second file is never visited.
\<close>

theorem recording_failure_aborts_request_witness:
  "validate (activityCreationFails (exServer [exProdFile, exAllFile] [exProd 11])) exRequest
     = Inr (exPushEvent [exProdFile, exAllFile], exRepository) \<and>
   (exCommit [exProdFile, exAllFile], exProdFile)
     \<in> set (visited (snd (handler (activityCreationFails (exServer [exProdFile, exAllFile] [exProd 11])) exRequest))) \<and>
   createdIssue (activityCreationFails (exServer [exProdFile, exAllFile] [exProd 11])) exRepository
     (exPushEvent [exProdFile, exAllFile]) (exCommit [exProdFile, exAllFile], exProdFile) = Some exIssue \<and>
   recordingFails (activityCreationFails (exServer [exProdFile, exAllFile] [exProd 11])) exRepository
     (fileVCSPushEvent (activityCreationFails (exServer [exProdFile, exAllFile] [exProd 11])) exRepository
        (exPushEvent [exProdFile, exAllFile]) (exCommit [exProdFile, exAllFile]) exProdFile) exIssue \<and>
   (\<exists>msg. fst (handler (activityCreationFails (exServer [exProdFile, exAllFile] [exProd 11])) exRequest)
      = HTTPError StatusInternalServerError msg) \<and>
   filePairs (PushEvent_CommitList (exPushEvent [exProdFile, exAllFile]))
     = visited (snd (handler (activityCreationFails (exServer [exProdFile, exAllFile] [exProd 11])) exRequest))
         @ [(exCommit [exProdFile, exAllFile], exAllFile)] \<and>
   last (issues (snd (handler (activityCreationFails (exServer [exProdFile, exAllFile] [exProd 11])) exRequest)))
     = exIssue"
proof -
  define s where "s = activityCreationFails (exServer [exProdFile, exAllFile] [exProd 11])"
  have v: "validate s exRequest = Inr (exPushEvent [exProdFile, exAllFile], exRepository)"
    by (simp add: s_def validate_def WebhookPush_def Itoa_def itoa_nat.simps ex_defs)
  have h: "handler s exRequest = (fst (handler s exRequest), snd (handler s exRequest))"
    by simp
  have m: "(exCommit [exProdFile, exAllFile], exProdFile) \<in> set (visited (snd (handler s exRequest)))"
    by (simp add: s_def model_defs ex_defs)
  have c: "createdIssue s exRepository (exPushEvent [exProdFile, exAllFile])
      (exCommit [exProdFile, exAllFile], exProdFile) = Some exIssue"
    by (simp add: s_def model_defs spec_defs ex_defs)
  have f: "recordingFails s exRepository
     (fileVCSPushEvent s exRepository (exPushEvent [exProdFile, exAllFile])
        (exCommit [exProdFile, exAllFile]) exProdFile) exIssue"
    by (simp add: s_def model_defs spec_defs ex_defs)
  have a: "filePairs (PushEvent_CommitList (exPushEvent [exProdFile, exAllFile]))
     = visited (snd (handler s exRequest)) @ [(exCommit [exProdFile, exAllFile], exAllFile)]"
    by (simp add: s_def model_defs spec_defs ex_defs)
  from recording_failure_aborts_request [OF v h, of "exCommit [exProdFile, exAllFile]" exProdFile exIssue] m c f
  have "(\<exists>msg. fst (handler s exRequest) = HTTPError StatusInternalServerError msg) \<and>
    last (issues (snd (handler s exRequest))) = exIssue"
    by blast
  with v m c f a show ?thesis unfolding s_def by simp
qed

subsection \<open>C9: failing to create the issue\<close>

text \<open>
  Claim C9, as amended. When the issue-creation call fails for a file that resolves, the
  failure is logged and processing continues with the next file: no issue and no response
  line is added. The failure records no audit activity: the step that calls the issue
  service adds none, from whatever state it starts, and a file whose policy lookups
  succeeded leaves no activity at all.
\<close>

theorem issue_creation_failure_is_local:
  assumes "resolveTargets s repository commit added = Some (mi, b, targets)"
    and "CreateIssue s (fileIssueCreate s repository pushEvent commit added mi b targets) SYSTEM_BOT_ID = Inl err"
  shows "(\<exists>st'. processFile s repository pushEvent commit added st = (Continue, st') \<and>
        issues st' = issues st \<and> createdMessageList st' = createdMessageList st \<and>
        last (logs st') = (Warn, ''Failed to create update schema task for added repository file'') \<and>
        (policiesLoaded s targets \<longrightarrow> activities st' = activities st)) \<and>
     (\<exists>st1. createIssueForFile s repository added (fileVCSPushEvent s repository pushEvent commit added)
              (fileIssueCreate s repository pushEvent commit added mi b targets) st0 = (Continue, st1) \<and>
        activities st1 = activities st0 \<and> issues st1 = issues st0 \<and>
        createdMessageList st1 = createdMessageList st0)"
proof -
  from processFile_resolved [OF assms(1), where pushEvent = pushEvent and st = st]
  obtain st2 where c: "core st2 = (createdMessageList st, issues st, submitted st, visited st @ [(commit, added)])"
    and a: "policiesLoaded s targets \<longrightarrow> activities st2 = activities st"
    and p: "processFile s repository pushEvent commit added st =
       createIssueForFile s repository added (fileVCSPushEvent s repository pushEvent commit added)
         (fileIssueCreate s repository pushEvent commit added mi b targets) st2"
    by auto
  from p c a show ?thesis
    by (simp add: createIssueForFile_failed [OF assms(2)] l_Warn_def core_def)
qed

text \<open>The migration for \<open>prod\<close> on a server whose issue creation fails.\<close>

theorem issue_creation_failure_is_local_witness:
  "resolveTargets (issueCreationFails (exServer [exProdFile] [exProd 11])) exRepository
     (exCommit [exProdFile]) exProdFile = Some (exProdMigration, exStatement, [exProd 11]) \<and>
   CreateIssue (issueCreationFails (exServer [exProdFile] [exProd 11]))
     (fileIssueCreate (issueCreationFails (exServer [exProdFile] [exProd 11])) exRepository
        (exPushEvent [exProdFile]) (exCommit [exProdFile]) exProdFile exProdMigration exStatement
        [exProd 11]) SYSTEM_BOT_ID = Inl exFailure \<and>
   policiesLoaded (issueCreationFails (exServer [exProdFile] [exProd 11])) [exProd 11] \<and>
   (\<exists>st'. processFile (issueCreationFails (exServer [exProdFile] [exProd 11])) exRepository
            (exPushEvent [exProdFile]) (exCommit [exProdFile]) exProdFile initState = (Continue, st') \<and>
      issues st' = [] \<and> createdMessageList st' = [] \<and>
      last (logs st') = (Warn, ''Failed to create update schema task for added repository file'') \<and>
      activities st' = [])"
proof -
  define s where "s = issueCreationFails (exServer [exProdFile] [exProd 11])"
  have r: "resolveTargets s exRepository (exCommit [exProdFile]) exProdFile
      = Some (exProdMigration, exStatement, [exProd 11])"
    by (simp add: s_def model_defs spec_defs ex_defs)
  have c: "CreateIssue s (fileIssueCreate s exRepository (exPushEvent [exProdFile]) (exCommit [exProdFile])
       exProdFile exProdMigration exStatement [exProd 11]) SYSTEM_BOT_ID = Inl exFailure"
    by (simp add: s_def issueCreationFails_def)
  have p: "policiesLoaded s [exProd 11]"
    by (simp add: s_def model_defs spec_defs ex_defs)
  from issue_creation_failure_is_local [OF r c, where st = initState] r c p show ?thesis
    unfolding s_def by (simp add: initState_def)
qed

text \<open>
  C9 as stated fails: the request is submitted and fails, and the handler records no
  activity for it although the activity service works.
\<close>

theorem issue_creation_failure_silent_counterexample:
  "resolveTargets (issueCreationFails (exServer [exProdFile] [exProd 11])) exRepository
     (exCommit [exProdFile]) exProdFile = Some (exProdMigration, exStatement, [exProd 11]) \<and>
   isl (CreateIssue (issueCreationFails (exServer [exProdFile] [exProd 11]))
          (fileIssueCreate (issueCreationFails (exServer [exProdFile] [exProd 11])) exRepository
             (exPushEvent [exProdFile]) (exCommit [exProdFile]) exProdFile exProdMigration exStatement
             [exProd 11]) SYSTEM_BOT_ID) \<and>
   submitted (snd (handler (issueCreationFails (exServer [exProdFile] [exProd 11])) exRequest))
     = [fileIssueCreate (issueCreationFails (exServer [exProdFile] [exProd 11])) exRepository
             (exPushEvent [exProdFile]) (exCommit [exProdFile]) exProdFile exProdMigration exStatement
             [exProd 11]] \<and>
   activities (snd (handler (issueCreationFails (exServer [exProdFile] [exProd 11])) exRequest)) = []"
  by (simp add: model_defs spec_defs ex_defs)

subsection \<open>C10: failing to record an ignored file\<close>

text \<open>
  Claim C10. Let two servers differ only in how marshalling and activity creation answer
  for ignored files. Then the handler gives both the same HTTP result, status and body, processes the same
  files, submits the same requests and creates the same issues: a failure to record an
  ignored file is never more than a log entry.
\<close>

theorem ignore_recording_failure_invisible:
  assumes "successRecordingAgrees s marshal' create'"
    and "s' = s\<lparr>json_Marshal := marshal', CreateActivity := create'\<rparr>"
  shows "fst (handler s' c) = fst (handler s c) \<and>
     visited (snd (handler s' c)) = visited (snd (handler s c)) \<and>
     issues (snd (handler s' c)) = issues (snd (handler s c)) \<and>
     submitted (snd (handler s' c)) = submitted (snd (handler s c)) \<and>
     createdMessageList (snd (handler s' c)) = createdMessageList (snd (handler s c))"
proof (cases "validate s c")
  case (Inl r)
  then show ?thesis
    by (simp add: handler_def assms(2) updated_validate)
next
  case (Inr v)
  obtain pushEvent repository where v: "validate s c = Inr (pushEvent, repository)"
    using Inr by (cases v) auto
  then have v': "validate s' c = Inr (pushEvent, repository)"
    by (simp add: assms(2) updated_validate)
  define ps where "ps = filePairs (PushEvent_CommitList pushEvent)"
  have ff: "fileFlow s' repository pushEvent = fileFlow s repository pushEvent"
    unfolding assms(2) using updated_fileFlow [OF assms(1)] by (simp add: fun_eq_iff)
  have pp: "processedPairs s' repository pushEvent ps = processedPairs s repository pushEvent ps"
    by (simp add: processedPairs_def ff)
  have lf: "loopFlow s' repository pushEvent ps = loopFlow s repository pushEvent ps"
    by (simp add: loopFlow_def ff cong: list.case_cong)
  have ci: "createdIssue s' repository pushEvent = createdIssue s repository pushEvent"
    and cl: "createdLine s' repository pushEvent = createdLine s repository pushEvent"
    and sr: "submittedRequest s' repository pushEvent = submittedRequest s repository pushEvent"
    unfolding assms(2)
    by (simp_all add: fun_eq_iff updated_createdIssue updated_createdLine updated_submittedRequest)
  from handler_validated [OF v] handler_validated [OF v'] show ?thesis
    unfolding ps_def [symmetric] by (auto simp: pp lf ci cl sr split: Flow.splits)
qed

text \<open>
  A file that does not parse, followed by a migration: with and without the WARN activity of
  the first file, the response is the line of the second.
\<close>

theorem ignore_recording_failure_invisible_witness:
  "successRecordingAgrees (exServer [exNotesFile, exProdFile] [exProd 11])
     (exIgnoreMarshalFails (exServer [exNotesFile, exProdFile] [exProd 11]))
     (exWarnActivityFails (exServer [exNotesFile, exProdFile] [exProd 11])) \<and>
   map ActivityCreate_Level
     (activities (snd (handler (exServer [exNotesFile, exProdFile] [exProd 11]) exRequest)))
     = [ACTIVITY_WARN, ACTIVITY_INFO] \<and>
   map ActivityCreate_Level
     (activities (snd (handler ((exServer [exNotesFile, exProdFile] [exProd 11])
        \<lparr>json_Marshal := exIgnoreMarshalFails (exServer [exNotesFile, exProdFile] [exProd 11]),
         CreateActivity := exWarnActivityFails (exServer [exNotesFile, exProdFile] [exProd 11])\<rparr>) exRequest)))
     = [ACTIVITY_INFO] \<and>
   fst (handler (exServer [exNotesFile, exProdFile] [exProd 11]) exRequest)
     = StringResponse StatusOK (exLine exProdFile) \<and>
   fst (handler ((exServer [exNotesFile, exProdFile] [exProd 11])
        \<lparr>json_Marshal := exIgnoreMarshalFails (exServer [exNotesFile, exProdFile] [exProd 11]),
         CreateActivity := exWarnActivityFails (exServer [exNotesFile, exProdFile] [exProd 11])\<rparr>) exRequest)
     = StringResponse StatusOK (exLine exProdFile) \<and>
   issues (snd (handler ((exServer [exNotesFile, exProdFile] [exProd 11])
        \<lparr>json_Marshal := exIgnoreMarshalFails (exServer [exNotesFile, exProdFile] [exProd 11]),
         CreateActivity := exWarnActivityFails (exServer [exNotesFile, exProdFile] [exProd 11])\<rparr>) exRequest))
     = issues (snd (handler (exServer [exNotesFile, exProdFile] [exProd 11]) exRequest)) \<and>
   visited (snd (handler ((exServer [exNotesFile, exProdFile] [exProd 11])
        \<lparr>json_Marshal := exIgnoreMarshalFails (exServer [exNotesFile, exProdFile] [exProd 11]),
         CreateActivity := exWarnActivityFails (exServer [exNotesFile, exProdFile] [exProd 11])\<rparr>) exRequest))
     = visited (snd (handler (exServer [exNotesFile, exProdFile] [exProd 11]) exRequest))"
proof -
  define s where "s = exServer [exNotesFile, exProdFile] [exProd 11]"
  define s' where "s' = s\<lparr>json_Marshal := exIgnoreMarshalFails s, CreateActivity := exWarnActivityFails s\<rparr>"
  have a: "successRecordingAgrees s (exIgnoreMarshalFails s) (exWarnActivityFails s)"
    by (auto simp: successRecordingAgrees_def exIgnoreMarshalFails_def exWarnActivityFails_def
        createdPayload_def s_def exServer_def)
  have l: "map ActivityCreate_Level (activities (snd (handler s exRequest))) = [ACTIVITY_WARN, ACTIVITY_INFO]"
    by (simp add: s_def model_defs ex_defs)
  have l': "map ActivityCreate_Level (activities (snd (handler s' exRequest))) = [ACTIVITY_INFO]"
    by (simp add: s'_def s_def model_defs ex_defs)
  have r: "fst (handler s exRequest) = StringResponse StatusOK (exLine exProdFile)"
    by (simp add: s_def model_defs ex_defs)
  from ignore_recording_failure_invisible [OF a s'_def, of exRequest] a l l' r show ?thesis
    unfolding s'_def s_def by simp
qed

end
